theory Spec2Isabelle
  imports Main
begin

section \<open>JavaScript values and string primitives\<close>

text \<open>
  The import and export routes receive JSON. A spreadsheet cell (a field of an input row)
  is a JavaScript primitive or an object; \<open>JUndefined\<close> stands for an absent key.
  Numbers are modelled as mathematical integers: the model follows the source on the
  integer-valued Numbers that JavaScript prints in plain decimal notation and represents
  exactly. Strings are lists of bytes; case folding and white space follow the source on
  ASCII text.
\<close>

datatype jsval = JUndefined | JNull | JBool bool | JNum int | JStr string | JObj

text \<open>Truthiness, as tested by \<^verbatim>\<open>!x\<close>, \<^verbatim>\<open>x ? a : b\<close> and \<^verbatim>\<open>x && y\<close>.\<close>

fun truthy :: "jsval \<Rightarrow> bool" where
  "truthy JUndefined = False"
| "truthy JNull = False"
| "truthy (JBool b) = b"
| "truthy (JNum n) = (n \<noteq> 0)"
| "truthy (JStr s) = (s \<noteq> [])"
| "truthy JObj = True"

definition digitChar :: "nat \<Rightarrow> char" where
  "digitChar d = ''0123456789'' ! d"

fun natDigits :: "nat \<Rightarrow> string" where
  "natDigits n = (if n < 10 then [digitChar n] else natDigits (n div 10) @ [digitChar (n mod 10)])"

declare natDigits.simps [simp del]

text \<open>\<^verbatim>\<open>String(x)\<close> and the conversion inside a template literal.\<close>

fun toString :: "jsval \<Rightarrow> string" where
  "toString JUndefined = ''undefined''"
| "toString JNull = ''null''"
| "toString (JBool b) = (if b then ''true'' else ''false'')"
| "toString (JNum n) = (if n < 0 then CHR ''-'' # natDigits (nat (- n)) else natDigits (nat n))"
| "toString (JStr s) = s"
| "toString JObj = ''[object Object]''"

definition isWhite :: "char \<Rightarrow> bool" where
  "isWhite c = (c \<in> set [CHR 0x09, CHR 0x0A, CHR 0x0B, CHR 0x0C, CHR 0x0D, CHR 0x20])"

text \<open>\<^verbatim>\<open>s.trim()\<close>\<close>

definition trim :: "string \<Rightarrow> string" where
  "trim s = rev (dropWhile isWhite (rev (dropWhile isWhite s)))"

definition lowerChar :: "char \<Rightarrow> char" where
  "lowerChar c =
     (case map_of (zip ''ABCDEFGHIJKLMNOPQRSTUVWXYZ'' ''abcdefghijklmnopqrstuvwxyz'') c of
        None \<Rightarrow> c
      | Some l \<Rightarrow> l)"

text \<open>\<^verbatim>\<open>s.toLowerCase()\<close>\<close>

definition toLowerCase :: "string \<Rightarrow> string" where
  "toLowerCase s = map lowerChar s"

text \<open>
  \<^verbatim>\<open>parseInt(x)\<close> with no radix: \<open>x\<close> is converted to a string, leading white space is
  skipped, one sign is read, a \<^verbatim>\<open>0x\<close> or \<^verbatim>\<open>0X\<close> prefix selects radix 16, and the longest
  run of digits of the radix is the value. With no digit the result is \<^verbatim>\<open>NaN\<close>, here
  \<open>None\<close>.
\<close>

definition digitValue :: "char \<Rightarrow> nat option" where
  "digitValue c =
     (let n = (of_char c :: nat) in
      if 48 \<le> n \<and> n \<le> 57 then Some (n - 48)
      else if 97 \<le> n \<and> n \<le> 102 then Some (n - 87)
      else if 65 \<le> n \<and> n \<le> 70 then Some (n - 55)
      else None)"

definition isRadixDigit :: "nat \<Rightarrow> char \<Rightarrow> bool" where
  "isRadixDigit r c = (case digitValue c of None \<Rightarrow> False | Some d \<Rightarrow> d < r)"

definition digitsValue :: "nat \<Rightarrow> string \<Rightarrow> nat" where
  "digitsValue r ds = foldl (\<lambda>a c. a * r + (case digitValue c of None \<Rightarrow> 0 | Some d \<Rightarrow> d)) 0 ds"

definition parseIntString :: "string \<Rightarrow> int option" where
  "parseIntString inputString =
     (let s = dropWhile isWhite inputString;
          negative = (s \<noteq> [] \<and> hd s = CHR ''-'');
          s1 = (if s \<noteq> [] \<and> (hd s = CHR ''+'' \<or> hd s = CHR ''-'') then tl s else s);
          hex = (take 2 s1 = ''0x'' \<or> take 2 s1 = ''0X'');
          r = (if hex then 16 else 10);
          s2 = (if hex then drop 2 s1 else s1);
          z = takeWhile (isRadixDigit r) s2
      in if z = [] then None
         else Some (if negative then - int (digitsValue r z) else int (digitsValue r z)))"

definition parseInt :: "jsval \<Rightarrow> int option" where
  "parseInt x = parseIntString (toString x)"

text \<open>Truthiness of an optional string: absent and empty are falsy.\<close>

definition present :: "string option \<Rightarrow> bool" where
  "present x = (case x of None \<Rightarrow> False | Some s \<Rightarrow> s \<noteq> [])"

section \<open>Import: the row validator\<close>

text \<open>
  One input row, as decoded from the form field \<^verbatim>\<open>data\<close>, with the three columns
  that the validator reads. A failed or skipped row is recorded as the row paired with
  the text that the source adds to its copy as \<^verbatim>\<open>Error Reason\<close> or \<^verbatim>\<open>Reason\<close>.
\<close>

record row =
  SKU :: jsval
  Quantity_Available :: jsval
  Inventory_Location :: jsval

record location =
  loc_id :: string
  loc_name :: string

text \<open>
  What an import run fixes before it reads the rows: the form field \<^verbatim>\<open>locationId\<close>, the
  store's locations (fetched in all-locations mode only) and the name of the selected
  location (fetched in single-location mode only; \<open>None\<close> is \<^verbatim>\<open>undefined\<close>).
\<close>

record run_config =
  locationId :: string
  allLocations :: "location list"
  selectedLocationName :: "string option"

definition isAllLocationsMode :: "run_config \<Rightarrow> bool" where
  "isAllLocationsMode cfg = (locationId cfg = ''ALL_LOCATIONS'')"

text \<open>An entry of \<^verbatim>\<open>skuMap\<close>, the index of the remote inventory.\<close>

record variant_data =
  inventoryItemId :: string
  levels :: "string \<rightharpoonup> int"

type_synonym sku_map = "string \<rightharpoonup> variant_data"

text \<open>An element of \<^verbatim>\<open>bulkUpdates\<close>.\<close>

record update =
  upd_inventoryItemId :: string
  upd_locationId :: string
  upd_quantity :: int

text \<open>
  What the loop body does with one row. \<open>Dropped\<close> is the bare \<^verbatim>\<open>continue\<close> of the first
  line of the body; \<open>Rejected msg reason\<close> pushes \<open>msg\<close> to \<^verbatim>\<open>results.errors\<close> and the row,
  with \<open>reason\<close> as its \<^verbatim>\<open>Error Reason\<close>, to \<^verbatim>\<open>results.failedRows\<close>; \<open>Skipped reason\<close>
  pushes the row to \<^verbatim>\<open>results.skippedRows\<close>; \<open>Accepted u\<close> pushes \<open>u\<close> to
  \<^verbatim>\<open>bulkUpdates\<close>.
\<close>

datatype outcome =
  Dropped
| Rejected string string
| Skipped string
| Accepted update

definition sq :: string where
  "sq = [CHR 0x27]"

definition dq :: string where
  "dq = [CHR 0x22]"

text \<open>The message of the \<^verbatim>\<open>TypeError\<close> raised by \<^verbatim>\<open>undefined.toLowerCase()\<close>.\<close>

definition typeErrorMessage :: string where
  "typeErrorMessage = ''Cannot read properties of undefined (reading '' @ sq @ ''toLowerCase'' @ sq @ '')''"

text \<open>The template literal renders \<^verbatim>\<open>undefined\<close> as the text \<^verbatim>\<open>undefined\<close>.\<close>

definition nameText :: "string option \<Rightarrow> string" where
  "nameText n = (case n of None \<Rightarrow> ''undefined'' | Some s \<Rightarrow> s)"

definition sheetLocationOf :: "row \<Rightarrow> string" where
  "sheetLocationOf r =
     (if truthy (Inventory_Location r) then trim (toString (Inventory_Location r)) else [])"

text \<open>
  Location resolution (the block from \<^verbatim>\<open>sheetLocationRaw\<close> to the end of the mode
  test): a rejection, the \<^verbatim>\<open>TypeError\<close> of comparing against an undefined selected name,
  or the target location id and name.
\<close>

datatype resolution =
  LocRejected string string
| LocThrew string
| LocResolved string "string option"

definition resolveLocation :: "run_config \<Rightarrow> string \<Rightarrow> row \<Rightarrow> resolution" where
  "resolveLocation cfg sku r =
     (let sheetLocation = sheetLocationOf r in
      if isAllLocationsMode cfg then
        (if sheetLocation = [] then
           LocRejected
             (''Skipped SKU '' @ sku @ '': Inventory Location is required when '' @ dq
                @ ''All Locations'' @ dq @ '' is selected'')
             ''Inventory Location is required for All Locations mode''
         else
           (case find (\<lambda>loc. toLowerCase (loc_name loc) = toLowerCase sheetLocation)
                   (allLocations cfg) of
              None \<Rightarrow>
                LocRejected
                  (''Skipped SKU '' @ sku @ '': Location '' @ sq @ sheetLocation @ sq
                     @ '' not found in store'')
                  (''Location '' @ sq @ sheetLocation @ sq @ '' not found in store'')
            | Some foundLocation \<Rightarrow>
                LocResolved (loc_id foundLocation) (Some (loc_name foundLocation))))
      else
        (if sheetLocation \<noteq> [] then
           (case selectedLocationName cfg of
              None \<Rightarrow> LocThrew typeErrorMessage
            | Some selected \<Rightarrow>
                if toLowerCase sheetLocation \<noteq> toLowerCase selected then
                  LocRejected
                    (''Skipped SKU '' @ sku @ '': Location in sheet '' @ sq @ sheetLocation @ sq
                       @ '' does not match selected location '' @ sq @ selected @ sq)
                    (''Location mismatch: '' @ sq @ sheetLocation @ sq
                       @ [CHR 0x20, CHR 0xE2, CHR 0x89, CHR 0xA0, CHR 0x20] @ sq @ selected @ sq)
                else LocResolved (locationId cfg) (selectedLocationName cfg))
         else LocResolved (locationId cfg) (selectedLocationName cfg)))"

definition combinationKey :: "string \<Rightarrow> string option \<Rightarrow> string" where
  "combinationKey skuKey targetLocationName = skuKey @ ''|'' @ nameText targetLocationName"

text \<open>
  The index lookup and the comparison of quantities (from \<^verbatim>\<open>skuMap.get(skuKey)\<close> to the
  push to \<^verbatim>\<open>bulkUpdates\<close>).
\<close>

definition lookupAndCompare :: "sku_map \<Rightarrow> string \<Rightarrow> string \<Rightarrow> string \<Rightarrow> int \<Rightarrow> outcome" where
  "lookupAndCompare skuMap sku skuKey targetLocationId quantity =
     (case skuMap skuKey of
        None \<Rightarrow> Rejected (''Variant not found for SKU: '' @ sku) ''Variant not found''
      | Some variantData \<Rightarrow>
          (case levels variantData targetLocationId of
             None \<Rightarrow>
               Rejected
                 (''Skipped SKU '' @ sku @ '': SKU don'' @ sq @ ''t have this location (or not stocked)'')
                 (''SKU don'' @ sq @ ''t have this location'')
           | Some currentQty \<Rightarrow>
               if currentQty = quantity then Skipped ''Quantity already matches''
               else Accepted
                 \<lparr>upd_inventoryItemId = inventoryItemId variantData,
                  upd_locationId = targetLocationId,
                  upd_quantity = quantity\<rparr>))"

text \<open>The first test of the loop body: a row with no SKU, or a repeated header row.\<close>

definition noSkuOrHeader :: "row \<Rightarrow> bool" where
  "noSkuOrHeader r = (\<not> truthy (SKU r) \<or> SKU r = JStr ''SKU'')"

definition skuOf :: "row \<Rightarrow> string" where
  "skuOf r = trim (toString (SKU r))"

definition skuKeyOf :: "row \<Rightarrow> string" where
  "skuKeyOf r = toLowerCase (skuOf r)"

text \<open>
  The body of \<^verbatim>\<open>for (const row of rows)\<close>: the outcome of the row and the new value of
  \<^verbatim>\<open>processedCombinations\<close>.
\<close>

definition classifyRow :: "run_config \<Rightarrow> sku_map \<Rightarrow> string set \<Rightarrow> row \<Rightarrow> outcome \<times> string set" where
  "classifyRow cfg skuMap processedCombinations r =
     (if noSkuOrHeader r then (Dropped, processedCombinations)
      else
        let sku = skuOf r;
            skuKey = skuKeyOf r
        in case parseInt (Quantity_Available r) of
             None \<Rightarrow>
               (Rejected (''Skipped SKU '' @ sku @ '': Invalid or missing quantity value'')
                  ''Invalid or missing quantity value'',
                processedCombinations)
           | Some quantity \<Rightarrow>
               (case resolveLocation cfg sku r of
                  LocRejected msg reason \<Rightarrow> (Rejected msg reason, processedCombinations)
                | LocThrew message \<Rightarrow>
                    (Rejected (''Error processing SKU '' @ toString (SKU r) @ '': '' @ message)
                       message,
                     processedCombinations)
                | LocResolved targetLocationId targetLocationName \<Rightarrow>
                    let key = combinationKey skuKey targetLocationName in
                    if key \<in> processedCombinations then
                      (Rejected
                         (''Skipped SKU '' @ sku
                            @ '': You have identical row having same SKU and location'')
                         ''You have identical row having same SKU and location'',
                       processedCombinations)
                    else
                      (lookupAndCompare skuMap sku skuKey targetLocationId quantity,
                       insert key processedCombinations)))"

text \<open>The object \<^verbatim>\<open>results\<close> of the import action.\<close>

record results =
  total :: nat
  updated :: int
  errors :: "string list"
  failedRows :: "(row \<times> string) list"
  skippedRows :: "(row \<times> string) list"
  bulkOperationId :: "string option"

record validation =
  report :: results
  processedCombinations :: "string set"
  bulkUpdates :: "update list"

definition initialResults :: "row list \<Rightarrow> results" where
  "initialResults rows =
     \<lparr>total = length rows, updated = 0, errors = [], failedRows = [], skippedRows = [],
      bulkOperationId = None\<rparr>"

definition initialValidation :: "row list \<Rightarrow> validation" where
  "initialValidation rows =
     \<lparr>report = initialResults rows, processedCombinations = {}, bulkUpdates = []\<rparr>"

fun recordOutcome :: "validation \<Rightarrow> row \<Rightarrow> outcome \<Rightarrow> validation" where
  "recordOutcome v r Dropped = v"
| "recordOutcome v r (Rejected msg reason) =
     v\<lparr>report := (report v)\<lparr>errors := errors (report v) @ [msg],
                               failedRows := failedRows (report v) @ [(r, reason)]\<rparr>\<rparr>"
| "recordOutcome v r (Skipped reason) =
     v\<lparr>report := (report v)\<lparr>skippedRows := skippedRows (report v) @ [(r, reason)]\<rparr>\<rparr>"
| "recordOutcome v r (Accepted u) = v\<lparr>bulkUpdates := bulkUpdates v @ [u]\<rparr>"

definition processRow :: "run_config \<Rightarrow> sku_map \<Rightarrow> validation \<Rightarrow> row \<Rightarrow> validation" where
  "processRow cfg skuMap v r =
     (case classifyRow cfg skuMap (processedCombinations v) r of
        (out, seen) \<Rightarrow> recordOutcome (v\<lparr>processedCombinations := seen\<rparr>) r out)"

definition validateRows :: "run_config \<Rightarrow> sku_map \<Rightarrow> row list \<Rightarrow> validation" where
  "validateRows cfg skuMap rows = foldl (processRow cfg skuMap) (initialValidation rows) rows"

text \<open>
  The state of the loop when it reaches row \<open>j\<close>, and the outcome of that row in the run.
\<close>

definition stateBefore :: "run_config \<Rightarrow> sku_map \<Rightarrow> row list \<Rightarrow> nat \<Rightarrow> validation" where
  "stateBefore cfg skuMap rows j =
     foldl (processRow cfg skuMap) (initialValidation rows) (take j rows)"

definition outcomeAt :: "run_config \<Rightarrow> sku_map \<Rightarrow> row list \<Rightarrow> nat \<Rightarrow> outcome" where
  "outcomeAt cfg skuMap rows j =
     fst (classifyRow cfg skuMap (processedCombinations (stateBefore cfg skuMap rows j)) (rows ! j))"

text \<open>
  The pair with which a row arrives at the duplicate check: its case-folded SKU and its
  resolved location (id and name). \<open>None\<close> for a row that the loop leaves earlier.
\<close>

definition duplicateCheckPair :: "run_config \<Rightarrow> row \<Rightarrow> (string \<times> string \<times> string option) option" where
  "duplicateCheckPair cfg r =
     (if noSkuOrHeader r then None
      else case parseInt (Quantity_Available r) of
             None \<Rightarrow> None
           | Some quantity \<Rightarrow>
               (case resolveLocation cfg (skuOf r) r of
                  LocResolved targetLocationId targetLocationName \<Rightarrow>
                    Some (skuKeyOf r, targetLocationId, targetLocationName)
                | _ \<Rightarrow> None))"

definition duplicateRejection :: "row \<Rightarrow> outcome" where
  "duplicateRejection r =
     Rejected (''Skipped SKU '' @ skuOf r @ '': You have identical row having same SKU and location'')
       ''You have identical row having same SKU and location''"

text \<open>The number of outcomes recorded so far.\<close>

definition outcomeCount :: "validation \<Rightarrow> nat" where
  "outcomeCount v =
     length (bulkUpdates v) + length (skippedRows (report v)) + length (failedRows (report v))"

definition invalidQuantityRejection :: "row \<Rightarrow> outcome" where
  "invalidQuantityRejection r =
     Rejected (''Skipped SKU '' @ skuOf r @ '': Invalid or missing quantity value'')
       ''Invalid or missing quantity value''"

section \<open>Import: remote calls, the inventory index and the action\<close>

text \<open>
  An awaited remote call either rejects, and the exception leaves the enclosing function
  unless a \<^verbatim>\<open>try\<close> surrounds it, or resolves with a decoded response. A function that can
  be left by an exception completes with \<open>Threw\<close> or with \<open>Returned\<close> and its value.
\<close>

datatype 'a remote = Rejects | Resolves 'a

datatype 'a completion = Threw | Returned 'a

text \<open>The remote calls of the import action, in the order in which it makes them.\<close>

datatype import_call =
  GetLocations
| GetLocation string
| GetInventoryData "string option"
| StagedUploadsCreate
| Upload string "update list list"
| BulkOperationRunMutation "string option"

text \<open>One page of the listing query \<^verbatim>\<open>getInventoryData\<close>.\<close>

record quantity_node =
  qn_name :: string
  qn_quantity :: int

record level_node =
  ln_locationId :: string
  ln_quantities :: "quantity_node list"

record variant_node =
  vn_sku :: "string option"
  vn_inventoryItemId :: string
  vn_inventoryLevels :: "level_node list"

record page_info =
  hasNextPage :: bool
  endCursor :: "string option"

record variants_page =
  edges :: "variant_node list"
  pageInfo :: "page_info option"

text \<open>
  \<^verbatim>\<open>data.data?.productVariants\<close>: \<open>None\<close> when the response carries no data.
\<close>

type_synonym page_response = "variants_page option"

text \<open>The inner \<^verbatim>\<open>forEach\<close> over the inventory levels of one variant.\<close>

definition setLevel :: "(string \<rightharpoonup> int) \<Rightarrow> level_node \<Rightarrow> (string \<rightharpoonup> int)" where
  "setLevel lvls lvl =
     (case find (\<lambda>q. qn_name q = ''available'') (ln_quantities lvl) of
        None \<Rightarrow> lvls
      | Some qtyNode \<Rightarrow> lvls(ln_locationId lvl \<mapsto> qn_quantity qtyNode))"

text \<open>The body of the outer \<^verbatim>\<open>forEach\<close> over the edges of a page.\<close>

definition addVariant :: "sku_map \<Rightarrow> variant_node \<Rightarrow> sku_map" where
  "addVariant skuMap node =
     (case vn_sku node of
        None \<Rightarrow> skuMap
      | Some sku \<Rightarrow>
          if sku = [] then skuMap
          else skuMap(toLowerCase sku \<mapsto>
                 \<lparr>inventoryItemId = vn_inventoryItemId node,
                  levels = foldl setLevel Map.empty (vn_inventoryLevels node)\<rparr>))"

definition addPage :: "sku_map \<Rightarrow> page_response \<Rightarrow> sku_map" where
  "addPage skuMap response =
     (case response of None \<Rightarrow> skuMap | Some page \<Rightarrow> foldl addVariant skuMap (edges page))"

text \<open>
  The values that the loop reads back from a response for \<^verbatim>\<open>hasNextPage\<close> (tested for
  truthiness by \<^verbatim>\<open>while\<close>) and \<^verbatim>\<open>endCursor\<close>.
\<close>

definition nextPageOf :: "page_response \<Rightarrow> bool" where
  "nextPageOf response =
     (case response of
        None \<Rightarrow> False
      | Some page \<Rightarrow> (case pageInfo page of None \<Rightarrow> False | Some info \<Rightarrow> hasNextPage info))"

definition endCursorOf :: "page_response \<Rightarrow> string option" where
  "endCursorOf response =
     (case response of
        None \<Rightarrow> None
      | Some page \<Rightarrow> (case pageInfo page of None \<Rightarrow> None | Some info \<Rightarrow> endCursor info))"

text \<open>
  The loop \<^verbatim>\<open>while (hasNextPage)\<close>. The remote is the list of its answers to the
  successive page requests. The result is the index, or \<open>Threw\<close> when a request rejects,
  with the requests made; it is \<open>None\<close> when the loop is still asking for pages after the
  last listed answer.
\<close>

fun prefetch :: "page_response remote list \<Rightarrow> sku_map \<Rightarrow> string option \<Rightarrow>
    (sku_map completion \<times> import_call list) option" where
  "prefetch [] skuMap cursor = None"
| "prefetch (Rejects # answers) skuMap cursor = Some (Threw, [GetInventoryData cursor])"
| "prefetch (Resolves response # answers) skuMap cursor =
     (if nextPageOf response then
        (case prefetch answers (addPage skuMap response) (endCursorOf response) of
           None \<Rightarrow> None
         | Some (result, calls) \<Rightarrow> Some (result, GetInventoryData cursor # calls))
      else Some (Returned (addPage skuMap response), [GetInventoryData cursor]))"

text \<open>
  The planner of the payload: a line of the payload is written as the batch of updates
  that \<^verbatim>\<open>JSON.stringify\<close> serialises in it.
\<close>

definition BATCH_SIZE :: nat where
  "BATCH_SIZE = 1"

fun planBatches :: "update list \<Rightarrow> update list \<Rightarrow> update list list \<Rightarrow> update list list" where
  "planBatches [] currentBatch jsonlLines =
     (if length currentBatch > 0 then jsonlLines @ [currentBatch] else jsonlLines)"
| "planBatches (u # us) currentBatch jsonlLines =
     (if length (currentBatch @ [u]) \<ge> BATCH_SIZE
      then planBatches us [] (jsonlLines @ [currentBatch @ [u]])
      else planBatches us (currentBatch @ [u]) jsonlLines)"

text \<open>The responses of the three stages of the staged upload.\<close>

record staged_target =
  target_url :: string
  target_parameters :: "(string \<times> string) list"

record staged_create =
  sc_userErrors :: "string list option"
  stagedTargets :: "staged_target list option"

record staged_data =
  stageErrors :: "string list option"
  stagedUploadsCreate :: "staged_create option"

record upload_response =
  ok :: bool
  statusText :: string

record bulk_run =
  run_userErrors :: "string list option"
  run_operationId :: "string option"

text \<open>What the remote answers to each call of one import run.\<close>

record import_remote =
  locationsResponse :: "location list option remote"
  locationResponse :: "string option remote"
  inventoryPages :: "page_response remote list"
  stagedResponse :: "staged_data option remote"
  uploadResponse :: "upload_response remote"
  bulkRunResponse :: "bulk_run option remote"

definition pushError :: "results \<Rightarrow> string \<Rightarrow> results" where
  "pushError res msg = res\<lparr>errors := errors res @ [msg]\<rparr>"

text \<open>\<^verbatim>\<open>xs?.length > 0\<close>\<close>

definition nonEmptyList :: "'a list option \<Rightarrow> bool" where
  "nonEmptyList xs = (case xs of None \<Rightarrow> False | Some l \<Rightarrow> l \<noteq> [])"

text \<open>\<^verbatim>\<open>xs?.[0]?.message\<close>\<close>

definition firstMessage :: "string list option \<Rightarrow> string option" where
  "firstMessage xs = (case xs of None \<Rightarrow> None | Some [] \<Rightarrow> None | Some (m # _) \<Rightarrow> Some m)"

definition createUserErrors :: "staged_data \<Rightarrow> string list option" where
  "createUserErrors d = (case stagedUploadsCreate d of None \<Rightarrow> None | Some c \<Rightarrow> sc_userErrors c)"

text \<open>
  \<^verbatim>\<open>stageErrors?.[0]?.message || stagedUploadsCreate?.userErrors?.[0]?.message\<close>, as the
  concatenation renders it.
\<close>

definition stageErrorText :: "staged_data \<Rightarrow> string" where
  "stageErrorText d =
     (case firstMessage (stageErrors d) of
        Some (c # cs) \<Rightarrow> c # cs
      | _ \<Rightarrow> nameText (firstMessage (createUserErrors d)))"

definition firstTarget :: "staged_data \<Rightarrow> staged_target option" where
  "firstTarget d =
     (case stagedUploadsCreate d of
        None \<Rightarrow> None
      | Some c \<Rightarrow> (case stagedTargets c of None \<Rightarrow> None | Some [] \<Rightarrow> None | Some (t # _) \<Rightarrow> Some t))"

definition emptyStagedData :: staged_data where
  "emptyStagedData = \<lparr>stageErrors = None, stagedUploadsCreate = None\<rparr>"

text \<open>\<^verbatim>\<open>r.data || {}\<close>\<close>

definition stagedDataOf :: "staged_data option \<Rightarrow> staged_data" where
  "stagedDataOf body = (case body of None \<Rightarrow> emptyStagedData | Some x \<Rightarrow> x)"

text \<open>The part of the action after the trigger response has arrived.\<close>

definition afterTrigger :: "results \<Rightarrow> bulk_run option \<Rightarrow> results" where
  "afterTrigger res bulkData =
     (case bulkData of
        None \<Rightarrow> pushError res ''Failed to trigger backend bulk operation (No ID returned)''
      | Some run \<Rightarrow>
          (case run_userErrors run of
             Some (m # ms) \<Rightarrow> pushError res (''Bulk Mutation Error: '' @ m)
           | _ \<Rightarrow>
               (case run_operationId run of
                  Some (c # cs) \<Rightarrow> res\<lparr>bulkOperationId := Some (c # cs)\<rparr>
                | _ \<Rightarrow> pushError res ''Failed to trigger backend bulk operation (No ID returned)'')))"

text \<open>
  The staged upload pipeline, from \<^verbatim>\<open>stagedUploadsCreate\<close> to the end of the action.
\<close>

definition stagedUploadPipeline ::
    "results \<Rightarrow> update list list \<Rightarrow> import_remote \<Rightarrow> results completion \<times> import_call list" where
  "stagedUploadPipeline res jsonlLines remote =
     (case stagedResponse remote of
        Rejects \<Rightarrow> (Threw, [StagedUploadsCreate])
      | Resolves body \<Rightarrow>
          let d = stagedDataOf body in
          if nonEmptyList (stageErrors d) \<or> nonEmptyList (createUserErrors d) then
            (Returned (pushError res (''Failed to create upload target: '' @ stageErrorText d)),
             [StagedUploadsCreate])
          else
            (case firstTarget d of
               None \<Rightarrow>
                 (Returned (pushError res ''Failed to get upload target URL''),
                  [StagedUploadsCreate])
             | Some target \<Rightarrow>
                 let uploadPath = map_option snd (find (\<lambda>p. fst p = ''key'') (target_parameters target)) in
                 (case uploadResponse remote of
                    Rejects \<Rightarrow> (Threw, [StagedUploadsCreate, Upload (target_url target) jsonlLines])
                  | Resolves uploadRes \<Rightarrow>
                      if \<not> ok uploadRes then
                        (Returned (pushError res (''Upload failed: '' @ statusText uploadRes)),
                         [StagedUploadsCreate, Upload (target_url target) jsonlLines])
                      else
                        (case bulkRunResponse remote of
                           Rejects \<Rightarrow>
                             (Threw,
                              [StagedUploadsCreate, Upload (target_url target) jsonlLines,
                               BulkOperationRunMutation uploadPath])
                         | Resolves bulkData \<Rightarrow>
                             (Returned (afterTrigger res bulkData),
                              [StagedUploadsCreate, Upload (target_url target) jsonlLines,
                               BulkOperationRunMutation uploadPath])))))"

text \<open>
  The two helper queries at the head of the action: the locations of the store in
  all-locations mode, the name of the selected location otherwise.
\<close>

definition fetchRunConfig :: "string \<Rightarrow> import_remote \<Rightarrow> run_config completion \<times> import_call list" where
  "fetchRunConfig formLocationId remote =
     (if formLocationId = ''ALL_LOCATIONS'' then
        (case locationsResponse remote of
           Rejects \<Rightarrow> (Threw, [GetLocations])
         | Resolves found \<Rightarrow>
             (Returned \<lparr>locationId = formLocationId,
                        allLocations = (case found of None \<Rightarrow> [] | Some ls \<Rightarrow> ls),
                        selectedLocationName = None\<rparr>,
              [GetLocations]))
      else
        (case locationResponse remote of
           Rejects \<Rightarrow> (Threw, [GetLocation formLocationId])
         | Resolves name \<Rightarrow>
             (Returned \<lparr>locationId = formLocationId, allLocations = [],
                        selectedLocationName = name\<rparr>,
              [GetLocation formLocationId])))"

text \<open>
  The action from the validation of the rows on, with the index that the prefetch
  built: the report alone when no update is queued, the staged upload otherwise.
\<close>

definition validateAndSubmit ::
    "run_config \<Rightarrow> sku_map \<Rightarrow> row list \<Rightarrow> import_remote \<Rightarrow> results completion \<times> import_call list" where
  "validateAndSubmit cfg skuMap rows remote =
     (let v = validateRows cfg skuMap rows in
      if bulkUpdates v = [] then (Returned (report v), [])
      else stagedUploadPipeline (report v) (planBatches (bulkUpdates v) [] []) remote)"

text \<open>
  The import action on the form fields \<^verbatim>\<open>locationId\<close> and \<^verbatim>\<open>data\<close> (the rows): how it
  completes and the remote calls it has made.
\<close>

definition importAction ::
    "string \<Rightarrow> row list \<Rightarrow> import_remote \<Rightarrow> (results completion \<times> import_call list) option" where
  "importAction formLocationId rows remote =
     (case fetchRunConfig formLocationId remote of
        (Threw, calls) \<Rightarrow> Some (Threw, calls)
      | (Returned cfg, calls) \<Rightarrow>
          (case prefetch (inventoryPages remote) Map.empty None of
             None \<Rightarrow> None
           | Some (Threw, pageCalls) \<Rightarrow> Some (Threw, calls @ pageCalls)
           | Some (Returned skuMap, pageCalls) \<Rightarrow>
               (case validateAndSubmit cfg skuMap rows remote of
                  (result, stageCalls) \<Rightarrow> Some (result, calls @ pageCalls @ stageCalls))))"

text \<open>
  Notions used to state the behaviour of the prefetch: an answer after which the loop
  asks for a further page, the cursors of the requests made while reading a list of
  answers, and the index built from them.
\<close>

fun continues :: "page_response remote \<Rightarrow> bool" where
  "continues Rejects = False"
| "continues (Resolves response) = nextPageOf response"

fun cursorAfter :: "page_response remote \<Rightarrow> string option" where
  "cursorAfter Rejects = None"
| "cursorAfter (Resolves response) = endCursorOf response"

fun addAnswer :: "sku_map \<Rightarrow> page_response remote \<Rightarrow> sku_map" where
  "addAnswer skuMap Rejects = skuMap"
| "addAnswer skuMap (Resolves response) = addPage skuMap response"

definition requestsFor :: "string option \<Rightarrow> page_response remote list \<Rightarrow> import_call list" where
  "requestsFor cursor answers = map GetInventoryData (cursor # map cursorAfter answers)"

definition isStageCall :: "import_call \<Rightarrow> bool" where
  "isStageCall c =
     (case c of
        StagedUploadsCreate \<Rightarrow> True
      | Upload url payload \<Rightarrow> True
      | BulkOperationRunMutation path \<Rightarrow> True
      | _ \<Rightarrow> False)"

text \<open>
  The failures that the stages of the upload report in their responses: user errors or
  no target from the target request, a response that is not \<^verbatim>\<open>ok\<close> from the upload, user
  errors or no operation id from the trigger.
\<close>

definition targetRequestFailed :: "staged_data option \<Rightarrow> bool" where
  "targetRequestFailed body =
     (nonEmptyList (stageErrors (stagedDataOf body))
      \<or> nonEmptyList (createUserErrors (stagedDataOf body))
      \<or> firstTarget (stagedDataOf body) = None)"

definition triggerFailed :: "bulk_run option \<Rightarrow> bool" where
  "triggerFailed bulkData =
     (case bulkData of
        None \<Rightarrow> True
      | Some run \<Rightarrow> nonEmptyList (run_userErrors run) \<or> \<not> present (run_operationId run))"

section \<open>Import: the result of the write job and the merged report\<close>

text \<open>
  A line of the result artifact of the write job, as \<^verbatim>\<open>JSON.parse\<close> sees it: \<open>None\<close> when
  parsing the line (or reading the parsed value) throws, otherwise the messages of
  \<^verbatim>\<open>result.inventorySetQuantities?.userErrors || []\<close>. The list of lines is the one left by
  the filter that removes blank lines.
\<close>

type_synonym write_line = "string list option"

record bulk_results =
  br_updated :: int
  br_errors :: "string list"

text \<open>
  The \<^verbatim>\<open>forEach\<close> over the lines. It runs inside one \<^verbatim>\<open>try\<close>: an exception leaves the loop,
  and \<^verbatim>\<open>catch\<close> keeps what \<^verbatim>\<open>bulkErrors\<close> and \<^verbatim>\<open>successCount\<close> hold at that point.
\<close>

fun scanWriteLines :: "write_line list \<Rightarrow> bulk_results \<Rightarrow> bulk_results" where
  "scanWriteLines [] acc = acc"
| "scanWriteLines (None # ls) acc = acc"
| "scanWriteLines (Some [] # ls) acc = scanWriteLines ls (acc\<lparr>br_updated := br_updated acc + 1\<rparr>)"
| "scanWriteLines (Some (m # ms) # ls) acc = scanWriteLines ls (acc\<lparr>br_errors := br_errors acc @ [m]\<rparr>)"

text \<open>
  The \<^verbatim>\<open>COMPLETED\<close> branch of the polling loader: \<open>artifact\<close> is \<open>None\<close> when the job has
  no result URL, \<open>Some Rejects\<close> when fetching it fails.
\<close>

definition completedBulkResults :: "jsval \<Rightarrow> write_line list remote option \<Rightarrow> bulk_results" where
  "completedBulkResults objectCount artifact =
     (case artifact of
        None \<Rightarrow>
          \<lparr>br_updated = (case parseInt objectCount of None \<Rightarrow> 0 | Some n \<Rightarrow> n), br_errors = []\<rparr>
      | Some Rejects \<Rightarrow> \<lparr>br_updated = 0, br_errors = []\<rparr>
      | Some (Resolves ls) \<Rightarrow> scanWriteLines ls \<lparr>br_updated = 0, br_errors = []\<rparr>)"

text \<open>
  The merge made by the page when the poll reports \<^verbatim>\<open>COMPLETED\<close>; \<open>None\<close> is a poll result
  without \<^verbatim>\<open>bulkResults\<close>.
\<close>

definition mergeResults :: "results \<Rightarrow> bulk_results option \<Rightarrow> results" where
  "mergeResults validatedResults bulkResults =
     (let bulkRes = (case bulkResults of
                       None \<Rightarrow> \<lparr>br_updated = 0, br_errors = []\<rparr>
                     | Some b \<Rightarrow> b)
      in validatedResults
           \<lparr>updated := updated validatedResults + br_updated bulkRes,
            errors := errors validatedResults @ br_errors bulkRes\<rparr>)"

section \<open>Export: the tree builder and the projection\<close>

text \<open>\<^verbatim>\<open>s.includes(sub)\<close>\<close>

fun stringIncludes :: "string \<Rightarrow> string \<Rightarrow> bool" where
  "stringIncludes [] sub = (sub = [])"
| "stringIncludes (c # cs) sub = (take (length sub) (c # cs) = sub \<or> stringIncludes cs sub)"

text \<open>
  The object parsed from one line of the result artifact of the read job, with the
  fields that the loader reads. \<open>obj_inventoryItem\<close> is the id of the nested
  \<^verbatim>\<open>inventoryItem\<close>.
\<close>

record level_location =
  ll_id :: string
  ll_name :: "string option"

record read_obj =
  obj_id :: "string option"
  obj_sku :: "string option"
  obj_title :: "string option"
  obj_parentId :: "string option"
  obj_selectedOptions :: "string list option"
  obj_inventoryItem :: "string option"
  obj_location :: "level_location option"
  obj_quantities :: "int list option"

text \<open>A line: \<open>None\<close> when \<^verbatim>\<open>JSON.parse\<close> throws on it.\<close>

type_synonym read_line = "read_obj option"

text \<open>
  The parsed objects are shared between the arrays and the three maps and are updated
  in place, so they live in a store. An object gets its address when it is parsed. A
  variant owns its nested inventory item, which stands in the store under the address
  of the variant.
\<close>

record inventory_item_obj =
  inv_id :: string
  inv_inventoryLevels :: "read_obj list"

record variant_obj =
  var_sku :: "string option"
  var_selectedOptions :: "string list option"
  var_inventoryItem :: "inventory_item_obj option"

record product_obj =
  prod_title :: "string option"
  prod_variants :: "nat list"

record builder =
  nextAddress :: nat
  productStore :: "nat \<rightharpoonup> product_obj"
  variantStore :: "nat \<rightharpoonup> variant_obj"
  productsMap :: "string \<rightharpoonup> nat"
  variantsMap :: "string \<rightharpoonup> nat"
  inventoryItemsMap :: "string \<rightharpoonup> nat"
  products :: "nat list"

definition emptyBuilder :: builder where
  "emptyBuilder =
     \<lparr>nextAddress = 0, productStore = Map.empty, variantStore = Map.empty,
      productsMap = Map.empty, variantsMap = Map.empty, inventoryItemsMap = Map.empty,
      products = []\<rparr>"

definition idIncludes :: "read_obj \<Rightarrow> string \<Rightarrow> bool" where
  "idIncludes obj tag = (case obj_id obj of None \<Rightarrow> False | Some i \<Rightarrow> i \<noteq> [] \<and> stringIncludes i tag)"

text \<open>\<^verbatim>\<open>productsMap.get(parentId).variants.push(obj)\<close>\<close>

definition pushVariant :: "builder \<Rightarrow> nat \<Rightarrow> nat \<Rightarrow> builder" where
  "pushVariant b productAddress a =
     (case productStore b productAddress of
        None \<Rightarrow> b
      | Some p \<Rightarrow>
          b\<lparr>productStore := (productStore b)(productAddress \<mapsto> p\<lparr>prod_variants := prod_variants p @ [a]\<rparr>)\<rparr>)"

text \<open>\<^verbatim>\<open>inventoryLevels.push(obj)\<close> on the inventory item of the variant at an address.\<close>

definition pushLevel :: "builder \<Rightarrow> nat \<Rightarrow> read_obj \<Rightarrow> builder" where
  "pushLevel b variantAddress obj =
     (case variantStore b variantAddress of
        None \<Rightarrow> b
      | Some v \<Rightarrow>
          (case var_inventoryItem v of
             None \<Rightarrow> b
           | Some item \<Rightarrow>
               b\<lparr>variantStore := (variantStore b)(variantAddress \<mapsto>
                    v\<lparr>var_inventoryItem :=
                        Some (item\<lparr>inv_inventoryLevels := inv_inventoryLevels item @ [obj]\<rparr>)\<rparr>)\<rparr>))"

text \<open>The three branches of the body of \<^verbatim>\<open>lines.forEach\<close>, for the object at address \<open>a\<close>.\<close>

definition addProduct :: "builder \<Rightarrow> nat \<Rightarrow> read_obj \<Rightarrow> builder" where
  "addProduct b a obj =
     b\<lparr>productStore := (productStore b)(a \<mapsto> \<lparr>prod_title = obj_title obj, prod_variants = []\<rparr>),
       productsMap := (case obj_id obj of None \<Rightarrow> productsMap b | Some i \<Rightarrow> (productsMap b)(i \<mapsto> a)),
       products := products b @ [a]\<rparr>"

definition addVariantObj :: "builder \<Rightarrow> nat \<Rightarrow> read_obj \<Rightarrow> builder" where
  "addVariantObj b a obj =
     (let b1 = b\<lparr>variantStore := (variantStore b)(a \<mapsto>
                   \<lparr>var_sku = obj_sku obj, var_selectedOptions = obj_selectedOptions obj,
                    var_inventoryItem =
                      map_option (\<lambda>i. \<lparr>inv_id = i, inv_inventoryLevels = []\<rparr>) (obj_inventoryItem obj)\<rparr>),
                 variantsMap := (case obj_id obj of None \<Rightarrow> variantsMap b | Some i \<Rightarrow> (variantsMap b)(i \<mapsto> a))\<rparr>;
          b2 = (case obj_parentId obj of
                  None \<Rightarrow> b1
                | Some parentId \<Rightarrow>
                    (case productsMap b1 parentId of
                       None \<Rightarrow> b1
                     | Some productAddress \<Rightarrow>
                         if parentId \<noteq> [] then pushVariant b1 productAddress a else b1))
      in case obj_inventoryItem obj of
           None \<Rightarrow> b2
         | Some i \<Rightarrow> b2\<lparr>inventoryItemsMap := (inventoryItemsMap b2)(i \<mapsto> a)\<rparr>)"

definition addLevel :: "builder \<Rightarrow> read_obj \<Rightarrow> builder" where
  "addLevel b obj =
     (case obj_parentId obj of
        None \<Rightarrow> b
      | Some parentId \<Rightarrow>
          if parentId = [] then b
          else
            (case inventoryItemsMap b parentId of
               Some variantAddress \<Rightarrow> pushLevel b variantAddress obj
             | None \<Rightarrow>
                 (case variantsMap b parentId of
                    None \<Rightarrow> b
                  | Some variantAddress \<Rightarrow> pushLevel b variantAddress obj)))"

definition handleObject :: "builder \<Rightarrow> read_obj \<Rightarrow> builder" where
  "handleObject b obj =
     (let a = nextAddress b;
          b0 = b\<lparr>nextAddress := Suc a\<rparr>
      in if idIncludes obj ''Product'' \<and> \<not> present (obj_sku obj) then addProduct b0 a obj
         else if idIncludes obj ''ProductVariant'' then addVariantObj b0 a obj
         else if idIncludes obj ''InventoryLevel''
                 \<or> (obj_location obj \<noteq> None \<and> obj_quantities obj \<noteq> None) then addLevel b0 obj
         else b0)"

text \<open>
  \<^verbatim>\<open>lines.forEach\<close> with its \<^verbatim>\<open>try\<close> inside the body: a line that does not parse is
  logged, and the loop goes on with the next line.
\<close>

fun buildTree :: "read_line list \<Rightarrow> builder \<Rightarrow> builder" where
  "buildTree [] b = b"
| "buildTree (None # ls) b = buildTree ls b"
| "buildTree (Some obj # ls) b = buildTree ls (handleObject b obj)"

text \<open>One row of the exported sheet.\<close>

record export_row =
  row_productTitle :: "string option"
  row_sku :: string
  row_option1 :: string
  row_option2 :: string
  row_option3 :: string
  row_inventoryLocation :: string
  row_quantityAvailable :: jsval

text \<open>\<^verbatim>\<open>locationId && locationId !== "ALL_LOCATIONS"\<close>, on the query parameter.\<close>

definition filterActive :: "string option \<Rightarrow> bool" where
  "filterActive locationParam = (present locationParam \<and> locationParam \<noteq> Some ''ALL_LOCATIONS'')"

definition optionValue :: "variant_obj \<Rightarrow> nat \<Rightarrow> string" where
  "optionValue v i =
     (case var_selectedOptions v of
        None \<Rightarrow> []
      | Some opts \<Rightarrow> if i < length opts then opts ! i else [])"

definition skuText :: "variant_obj \<Rightarrow> string" where
  "skuText v = (case var_sku v of None \<Rightarrow> [] | Some s \<Rightarrow> s)"

definition levelsOf :: "variant_obj \<Rightarrow> read_obj list" where
  "levelsOf v = (case var_inventoryItem v of None \<Rightarrow> [] | Some item \<Rightarrow> inv_inventoryLevels item)"

definition placeholderRow :: "string option \<Rightarrow> variant_obj \<Rightarrow> export_row" where
  "placeholderRow title v =
     \<lparr>row_productTitle = title, row_sku = skuText v,
      row_option1 = optionValue v 0, row_option2 = optionValue v 1, row_option3 = optionValue v 2,
      row_inventoryLocation = ''N/A'', row_quantityAvailable = JNum 0\<rparr>"

text \<open>\<^verbatim>\<open>level.location?.name || "Unknown"\<close>\<close>

definition locationNameOf :: "read_obj \<Rightarrow> string" where
  "locationNameOf level =
     (case obj_location level of
        None \<Rightarrow> ''Unknown''
      | Some loc \<Rightarrow> (case ll_name loc of Some (c # cs) \<Rightarrow> c # cs | _ \<Rightarrow> ''Unknown''))"

text \<open>
  The row of one level; \<open>None\<close> stands for the \<^verbatim>\<open>TypeError\<close> of reading
  \<^verbatim>\<open>level.quantities[0]\<close> on a level without \<^verbatim>\<open>quantities\<close>.
\<close>

definition levelRow :: "string option \<Rightarrow> variant_obj \<Rightarrow> read_obj \<Rightarrow> export_row option" where
  "levelRow title v level =
     (case obj_quantities level of
        None \<Rightarrow> None
      | Some qs \<Rightarrow>
          Some \<lparr>row_productTitle = title, row_sku = skuText v,
                row_option1 = optionValue v 0, row_option2 = optionValue v 1,
                row_option3 = optionValue v 2,
                row_inventoryLocation = locationNameOf level,
                row_quantityAvailable = JNum (case qs of [] \<Rightarrow> 0 | q # _ \<Rightarrow> q)\<rparr>)"

text \<open>
  \<^verbatim>\<open>inventoryLevels.filter(level => level.location.id === locationId)\<close>; \<open>None\<close> stands
  for the \<^verbatim>\<open>TypeError\<close> raised on a level without \<^verbatim>\<open>location\<close>.
\<close>

fun filterByLocation :: "string \<Rightarrow> read_obj list \<Rightarrow> read_obj list option" where
  "filterByLocation lid [] = Some []"
| "filterByLocation lid (level # ls) =
     (case obj_location level of
        None \<Rightarrow> None
      | Some loc \<Rightarrow>
          (case filterByLocation lid ls of
             None \<Rightarrow> None
           | Some kept \<Rightarrow> Some (if ll_id loc = lid then level # kept else kept)))"

fun levelRows :: "string option \<Rightarrow> variant_obj \<Rightarrow> read_obj list \<Rightarrow> export_row list option" where
  "levelRows title v [] = Some []"
| "levelRows title v (level # ls) =
     (case levelRow title v level of
        None \<Rightarrow> None
      | Some r \<Rightarrow> (case levelRows title v ls of None \<Rightarrow> None | Some rs \<Rightarrow> Some (r # rs)))"

text \<open>The rows that the body of \<^verbatim>\<open>product.variants.forEach\<close> pushes for one variant.\<close>

definition projectVariant :: "string option \<Rightarrow> string option \<Rightarrow> variant_obj \<Rightarrow> export_row list option" where
  "projectVariant locationParam title v =
     (case (case locationParam of
              None \<Rightarrow> Some (levelsOf v)
            | Some lid \<Rightarrow>
                if filterActive locationParam then filterByLocation lid (levelsOf v)
                else Some (levelsOf v)) of
        None \<Rightarrow> None
      | Some filteredInventory \<Rightarrow>
          if filteredInventory = [] then
            (if \<not> present locationParam \<or> locationParam = Some ''ALL_LOCATIONS''
             then Some [placeholderRow title v] else Some [])
          else levelRows title v filteredInventory)"

text \<open>
  The projection rule in the words of the specification, to be compared with the loader:
  with a location filter, one row for each level of the variant at that location; with
  no filter, one row for each level, or one placeholder row for a variant without
  levels.
\<close>

definition atLocation :: "string \<Rightarrow> read_obj \<Rightarrow> bool" where
  "atLocation lid level = (case obj_location level of None \<Rightarrow> False | Some loc \<Rightarrow> ll_id loc = lid)"

definition rowOfLevel :: "string option \<Rightarrow> variant_obj \<Rightarrow> read_obj \<Rightarrow> export_row" where
  "rowOfLevel title v level =
     \<lparr>row_productTitle = title, row_sku = skuText v,
      row_option1 = optionValue v 0, row_option2 = optionValue v 1, row_option3 = optionValue v 2,
      row_inventoryLocation = locationNameOf level,
      row_quantityAvailable =
        JNum (case obj_quantities level of Some (q # qs) \<Rightarrow> q | _ \<Rightarrow> 0)\<rparr>"

definition completeLevel :: "read_obj \<Rightarrow> bool" where
  "completeLevel level = (obj_location level \<noteq> None \<and> obj_quantities level \<noteq> None)"

definition expectedVariantRows :: "string option \<Rightarrow> string option \<Rightarrow> variant_obj \<Rightarrow> export_row list" where
  "expectedVariantRows locationParam title v =
     (if filterActive locationParam then
        map (rowOfLevel title v)
          (filter (atLocation (case locationParam of None \<Rightarrow> [] | Some lid \<Rightarrow> lid)) (levelsOf v))
      else if levelsOf v = [] then [placeholderRow title v]
      else map (rowOfLevel title v) (levelsOf v))"

fun projectVariants :: "string option \<Rightarrow> string option \<Rightarrow> variant_obj list \<Rightarrow> export_row list option" where
  "projectVariants locationParam title [] = Some []"
| "projectVariants locationParam title (v # vs) =
     (case projectVariant locationParam title v of
        None \<Rightarrow> None
      | Some rs \<Rightarrow>
          (case projectVariants locationParam title vs of None \<Rightarrow> None | Some rest \<Rightarrow> Some (rs @ rest)))"

text \<open>A product of the finished tree, with its variants read from the store.\<close>

record product_node =
  pn_title :: "string option"
  pn_variants :: "variant_obj list"

definition expectedProductRows :: "string option \<Rightarrow> product_node \<Rightarrow> export_row list" where
  "expectedProductRows locationParam p =
     concat (map (expectedVariantRows locationParam (pn_title p)) (pn_variants p))"

definition variantAt :: "builder \<Rightarrow> nat \<Rightarrow> variant_obj list" where
  "variantAt b a = (case variantStore b a of None \<Rightarrow> [] | Some v \<Rightarrow> [v])"

definition productAt :: "builder \<Rightarrow> nat \<Rightarrow> product_node list" where
  "productAt b a =
     (case productStore b a of
        None \<Rightarrow> []
      | Some p \<Rightarrow> [\<lparr>pn_title = prod_title p, pn_variants = concat (map (variantAt b) (prod_variants p))\<rparr>])"

definition treeOf :: "builder \<Rightarrow> product_node list" where
  "treeOf b = concat (map (productAt b) (products b))"

fun projectProducts :: "string option \<Rightarrow> product_node list \<Rightarrow> export_row list option" where
  "projectProducts locationParam [] = Some []"
| "projectProducts locationParam (p # ps) =
     (case projectVariants locationParam (pn_title p) (pn_variants p) of
        None \<Rightarrow> None
      | Some rs \<Rightarrow>
          (case projectProducts locationParam ps of None \<Rightarrow> None | Some rest \<Rightarrow> Some (rs @ rest)))"

definition noDataRow :: export_row where
  "noDataRow =
     \<lparr>row_productTitle = Some ''No data found'', row_sku = [],
      row_option1 = [], row_option2 = [], row_option3 = [],
      row_inventoryLocation = [], row_quantityAvailable = JStr []\<rparr>"

text \<open>
  The projection with its closing test \<^verbatim>\<open>rows.length === 0\<close>; \<open>None\<close> is the exception
  that the surrounding \<^verbatim>\<open>try\<close> turns into the status \<^verbatim>\<open>FAILED\<close>.
\<close>

definition projectRows :: "string option \<Rightarrow> product_node list \<Rightarrow> export_row list option" where
  "projectRows locationParam tree =
     (case projectProducts locationParam tree of
        None \<Rightarrow> None
      | Some rows \<Rightarrow> Some (if rows = [] then [noDataRow] else rows))"

definition exportRows :: "string option \<Rightarrow> read_line list \<Rightarrow> export_row list option" where
  "exportRows locationParam ls = projectRows locationParam (treeOf (buildTree ls emptyBuilder))"

section \<open>Export: submitting the read job\<close>

text \<open>
  The remote calls of the export action. The helper \<^verbatim>\<open>cancelOperation\<close> wraps its request
  and its wait in \<^verbatim>\<open>try\<close> and returns nothing, so a cancellation is only recorded as a
  call.
\<close>

datatype export_call =
  QueryCurrentOperation
| CancelOperation string
| RunQuery
| QueryCurrentOperationId

record current_operation =
  op_id :: string
  op_status :: string

text \<open>
  \<^verbatim>\<open>result.data?.bulkOperationRunQuery\<close>, with the messages of its user errors and the id
  of its \<^verbatim>\<open>bulkOperation\<close> (\<open>None\<close> when that is \<^verbatim>\<open>null\<close>).
\<close>

record run_query =
  rq_userErrors :: "string list option"
  rq_bulkOperation :: "string option"

record export_remote =
  currentOperationResponse :: "current_operation option remote"
  runQueryResponse :: "run_query option remote"
  retryOperationResponse :: "string option remote"
  retryRunQueryResponse :: "run_query option remote"

datatype export_result =
  ExportError string
| ExportCreated string string

definition userErrorsOf :: "run_query option \<Rightarrow> string list" where
  "userErrorsOf result =
     (case result of
        None \<Rightarrow> []
      | Some r \<Rightarrow> (case rq_userErrors r of None \<Rightarrow> [] | Some es \<Rightarrow> es))"

text \<open>\<^verbatim>\<open>userErrors?.some(e => e.message.includes("in progress"))\<close>\<close>

definition inProgress :: "run_query option \<Rightarrow> bool" where
  "inProgress result = list_ex (\<lambda>m. stringIncludes m ''in progress'') (userErrorsOf result)"

text \<open>
  The end of the action: the first user error, or the id of the created operation; reading
  the id of an absent operation throws.
\<close>

definition finishSubmit :: "string \<Rightarrow> run_query option \<Rightarrow> export_result completion" where
  "finishSubmit formLocationId result =
     (case userErrorsOf result of
        m # ms \<Rightarrow> Returned (ExportError m)
      | [] \<Rightarrow>
          (case result of
             None \<Rightarrow> Threw
           | Some r \<Rightarrow>
               (case rq_bulkOperation r of
                  None \<Rightarrow> Threw
                | Some operationId \<Rightarrow> Returned (ExportCreated formLocationId operationId))))"

text \<open>The calls up to the first submission: the lookup and the cancellation in advance.\<close>

definition callsBeforeSubmit :: "current_operation option \<Rightarrow> export_call list" where
  "callsBeforeSubmit currentOp =
     QueryCurrentOperation #
       (case currentOp of
          None \<Rightarrow> []
        | Some op \<Rightarrow> if op_status op \<noteq> ''COMPLETED'' then [CancelOperation (op_id op)] else [])"

text \<open>The calls of the retry block, from the lookup to the second submission.\<close>

definition retryCalls :: "string option \<Rightarrow> export_call list" where
  "retryCalls retryId =
     QueryCurrentOperationId #
       (case retryId of
          None \<Rightarrow> []
        | Some i \<Rightarrow> if i \<noteq> [] then [CancelOperation i] else [])
       @ [RunQuery]"

definition exportAction ::
    "string \<Rightarrow> export_remote \<Rightarrow> export_result completion \<times> export_call list" where
  "exportAction formLocationId remote =
     (case currentOperationResponse remote of
        Rejects \<Rightarrow> (Threw, [QueryCurrentOperation])
      | Resolves currentOp \<Rightarrow>
          (case runQueryResponse remote of
             Rejects \<Rightarrow> (Threw, callsBeforeSubmit currentOp @ [RunQuery])
           | Resolves result \<Rightarrow>
               if inProgress result then
                 (case retryOperationResponse remote of
                    Rejects \<Rightarrow>
                      (Threw, callsBeforeSubmit currentOp @ [RunQuery, QueryCurrentOperationId])
                  | Resolves retryId \<Rightarrow>
                      (case retryRunQueryResponse remote of
                         Rejects \<Rightarrow>
                           (Threw, callsBeforeSubmit currentOp @ [RunQuery] @ retryCalls retryId)
                       | Resolves retried \<Rightarrow>
                           (finishSubmit formLocationId retried,
                            callsBeforeSubmit currentOp @ [RunQuery] @ retryCalls retryId)))
               else (finishSubmit formLocationId result, callsBeforeSubmit currentOp @ [RunQuery])))"

definition isCancel :: "export_call \<Rightarrow> bool" where
  "isCancel c = (case c of CancelOperation i \<Rightarrow> True | _ \<Rightarrow> False)"

section \<open>Example runs\<close>

text \<open>
  A store with two locations and two variants, the second of which is listed on the
  second page of the inventory listing, and the rows of a sheet for it.
\<close>

definition exLocations :: "location list" where
  "exLocations = [\<lparr>loc_id = ''L1'', loc_name = ''Main''\<rparr>, \<lparr>loc_id = ''L2'', loc_name = ''Annex''\<rparr>]"

definition exConfig :: run_config where
  "exConfig = \<lparr>locationId = ''ALL_LOCATIONS'', allLocations = exLocations, selectedLocationName = None\<rparr>"

definition exIndex :: sku_map where
  "exIndex =
     [''a1'' \<mapsto> \<lparr>inventoryItemId = ''I1'', levels = [''L1'' \<mapsto> 5]\<rparr>,
      ''b2'' \<mapsto> \<lparr>inventoryItemId = ''I2'', levels = [''L1'' \<mapsto> 3]\<rparr>]"

definition exRow :: "string \<Rightarrow> jsval \<Rightarrow> string \<Rightarrow> row" where
  "exRow sku quantity place =
     \<lparr>SKU = JStr sku, Quantity_Available = quantity, Inventory_Location = JStr place\<rparr>"

definition exHeaderRow :: row where
  "exHeaderRow = exRow ''SKU'' (JStr ''Quantity Available'') ''Inventory Location''"

definition exPage1 :: page_response where
  "exPage1 =
     Some \<lparr>edges =
             [\<lparr>vn_sku = Some ''A1'', vn_inventoryItemId = ''I1'',
               vn_inventoryLevels =
                 [\<lparr>ln_locationId = ''L1'',
                   ln_quantities = [\<lparr>qn_name = ''available'', qn_quantity = 5\<rparr>]\<rparr>]\<rparr>],
           pageInfo = Some \<lparr>hasNextPage = True, endCursor = Some ''c1''\<rparr>\<rparr>"

definition exPage2 :: page_response where
  "exPage2 =
     Some \<lparr>edges =
             [\<lparr>vn_sku = Some ''B2'', vn_inventoryItemId = ''I2'',
               vn_inventoryLevels =
                 [\<lparr>ln_locationId = ''L1'',
                   ln_quantities = [\<lparr>qn_name = ''available'', qn_quantity = 3\<rparr>]\<rparr>]\<rparr>],
           pageInfo = Some \<lparr>hasNextPage = False, endCursor = None\<rparr>\<rparr>"

definition exTarget :: staged_target where
  "exTarget = \<lparr>target_url = ''https://upload.example'', target_parameters = [(''key'', ''tmp/updates.jsonl'')]\<rparr>"

definition exRemote :: import_remote where
  "exRemote =
     \<lparr>locationsResponse = Resolves (Some exLocations),
      locationResponse = Resolves (Some ''Main''),
      inventoryPages = [Resolves exPage1, Resolves exPage2],
      stagedResponse =
        Resolves (Some \<lparr>stageErrors = None,
                         stagedUploadsCreate =
                           Some \<lparr>sc_userErrors = Some [], stagedTargets = Some [exTarget]\<rparr>\<rparr>),
      uploadResponse = Resolves \<lparr>ok = True, statusText = ''OK''\<rparr>,
      bulkRunResponse =
        Resolves (Some \<lparr>run_userErrors = Some [], run_operationId = Some ''gid://shopify/BulkOperation/1''\<rparr>)\<rparr>"

definition exRows :: "row list" where
  "exRows = [exRow ''A1'' (JNum 9) ''Main'', exRow ''B2'' (JNum 3) ''Main'']"

text \<open>A sheet with a repeated header row and a quantity with a fractional part.\<close>

definition exSheet :: "row list" where
  "exSheet =
     [exHeaderRow,
      exRow ''A1'' (JNum 5) ''Main'',
      exRow ''A1'' (JNum 9) ''Annex'',
      exRow ''ZZ'' (JNum 1) ''Main'',
      exRow ''B2'' (JStr ''5.7'') ''main'',
      exRow ''a1'' (JStr ''12 units'') ''Main'']"

text \<open>Two rows for the same SKU and location, with different spellings and quantities.\<close>

definition exDuplicateRows :: "row list" where
  "exDuplicateRows = [exRow ''A1'' (JNum 9) ''Main'', exRow '' a1 '' (JStr ''7'') ''MAIN'']"

text \<open>A read-job artifact: one product, a variant with two levels and a variant with none.\<close>

definition exObject :: read_obj where
  "exObject =
     \<lparr>obj_id = None, obj_sku = None, obj_title = None, obj_parentId = None,
      obj_selectedOptions = None, obj_inventoryItem = None, obj_location = None,
      obj_quantities = None\<rparr>"

definition exLevel :: "string \<Rightarrow> string \<Rightarrow> string \<Rightarrow> string \<Rightarrow> int \<Rightarrow> read_obj" where
  "exLevel i parent lid name q =
     exObject\<lparr>obj_id := Some i, obj_parentId := Some parent,
       obj_location := Some \<lparr>ll_id = lid, ll_name = Some name\<rparr>, obj_quantities := Some [q]\<rparr>"

definition exLines :: "read_line list" where
  "exLines =
     [Some (exObject\<lparr>obj_id := Some ''gid://shopify/Product/1'', obj_title := Some ''Shirt''\<rparr>),
      Some (exObject\<lparr>obj_id := Some ''gid://shopify/ProductVariant/11'', obj_sku := Some ''A1'',
              obj_parentId := Some ''gid://shopify/Product/1'',
              obj_selectedOptions := Some [''Red''],
              obj_inventoryItem := Some ''gid://shopify/InventoryItem/21''\<rparr>),
      None,
      Some (exLevel ''gid://shopify/InventoryLevel/31'' ''gid://shopify/InventoryItem/21'' ''L1'' ''Main'' 5),
      Some (exLevel ''gid://shopify/InventoryLevel/32'' ''gid://shopify/InventoryItem/21'' ''L2'' ''Annex'' 0),
      Some (exObject\<lparr>obj_id := Some ''gid://shopify/ProductVariant/12'', obj_sku := Some ''B2'',
              obj_parentId := Some ''gid://shopify/Product/1'',
              obj_inventoryItem := Some ''gid://shopify/InventoryItem/22''\<rparr>)]"

definition exTree :: "product_node list" where
  "exTree = treeOf (buildTree exLines emptyBuilder)"

definition exExportRemote :: export_remote where
  "exExportRemote =
     \<lparr>currentOperationResponse = Resolves None,
      runQueryResponse =
        Resolves (Some \<lparr>rq_userErrors = Some [''A bulk query operation for this app and shop is already in progress''],
                         rq_bulkOperation = None\<rparr>),
      retryOperationResponse = Resolves (Some ''gid://shopify/BulkOperation/7''),
      retryRunQueryResponse =
        Resolves (Some \<lparr>rq_userErrors = Some [], rq_bulkOperation = Some ''gid://shopify/BulkOperation/8''\<rparr>)\<rparr>"

section \<open>The row validator: index lookup, duplicates, quantities, accounting\<close>

text \<open>
  Claim C1. A row that gets past the quantity check, the location resolution and the
  duplicate check is rejected with ``Variant not found'' when its case-folded SKU is not
  in the index, rejected with ``SKU don't have this location'' when the index has the SKU
  but no quantity at the resolved location, skipped with ``Quantity already matches''
  when the indexed quantity equals the desired one, and accepted otherwise, with the
  update made of the inventory item of the index entry, the resolved location and the
  quantity of the row.
\<close>

theorem index_lookup_outcomes:
  assumes "\<not> noSkuOrHeader r"
    and "parseInt (Quantity_Available r) = Some quantity"
    and "resolveLocation cfg (skuOf r) r = LocResolved targetLocationId targetLocationName"
    and "combinationKey (skuKeyOf r) targetLocationName \<notin> seen"
  shows "(skuMap (skuKeyOf r) = None \<longrightarrow>
            fst (classifyRow cfg skuMap seen r) =
              Rejected (''Variant not found for SKU: '' @ skuOf r) ''Variant not found'')
       \<and> (\<forall>variantData.
            skuMap (skuKeyOf r) = Some variantData \<and> levels variantData targetLocationId = None \<longrightarrow>
            fst (classifyRow cfg skuMap seen r) =
              Rejected
                (''Skipped SKU '' @ skuOf r @ '': SKU don'' @ sq @ ''t have this location (or not stocked)'')
                (''SKU don'' @ sq @ ''t have this location''))
       \<and> (\<forall>variantData.
            skuMap (skuKeyOf r) = Some variantData
              \<and> levels variantData targetLocationId = Some quantity \<longrightarrow>
            fst (classifyRow cfg skuMap seen r) = Skipped ''Quantity already matches'')
       \<and> (\<forall>variantData currentQty.
            skuMap (skuKeyOf r) = Some variantData
              \<and> levels variantData targetLocationId = Some currentQty \<and> currentQty \<noteq> quantity \<longrightarrow>
            fst (classifyRow cfg skuMap seen r) =
              Accepted \<lparr>upd_inventoryItemId = inventoryItemId variantData,
                        upd_locationId = targetLocationId, upd_quantity = quantity\<rparr>)"
  using assms by (simp add: classifyRow_def lookupAndCompare_def Let_def)

theorem index_lookup_outcomes_witness:
  "fst (classifyRow exConfig exIndex {} (exRow ''ZZ'' (JNum 1) ''Main'')) =
     Rejected ''Variant not found for SKU: ZZ'' ''Variant not found''
   \<and> fst (classifyRow exConfig exIndex {} (exRow ''A1'' (JNum 9) ''Annex'')) =
     Rejected (''Skipped SKU A1: SKU don'' @ sq @ ''t have this location (or not stocked)'')
       (''SKU don'' @ sq @ ''t have this location'')
   \<and> fst (classifyRow exConfig exIndex {} (exRow ''A1'' (JNum 5) ''Main'')) =
     Skipped ''Quantity already matches''
   \<and> fst (classifyRow exConfig exIndex {} (exRow ''A1'' (JNum 9) ''Main'')) =
     Accepted \<lparr>upd_inventoryItemId = ''I1'', upd_locationId = ''L1'', upd_quantity = 9\<rparr>"
proof -
  let ?a = "\<lparr>inventoryItemId = ''I1'', levels = [''L1'' \<mapsto> (5::int)]\<rparr>"
  have idx: "exIndex ''zz'' = None" "exIndex ''a1'' = Some ?a"
    by (simp_all add: exIndex_def)
  have lv: "levels ?a ''L2'' = None" "levels ?a ''L1'' = Some 5"
    by simp_all
  let ?r1 = "exRow ''ZZ'' (JNum 1) ''Main''"
  have k1: "skuOf ?r1 = ''ZZ''" "skuKeyOf ?r1 = ''zz''" by code_simp+
  have h1: "\<not> noSkuOrHeader ?r1" "parseInt (Quantity_Available ?r1) = Some 1"
    "resolveLocation exConfig (skuOf ?r1) ?r1 = LocResolved ''L1'' (Some ''Main'')"
    "combinationKey (skuKeyOf ?r1) (Some ''Main'') \<notin> {}"
    by code_simp+
  have c1: "fst (classifyRow exConfig exIndex {} ?r1) =
      Rejected ''Variant not found for SKU: ZZ'' ''Variant not found''"
    using index_lookup_outcomes [OF h1, of exIndex] idx(1) by (simp add: k1)
  let ?r2 = "exRow ''A1'' (JNum 9) ''Annex''"
  have k2: "skuOf ?r2 = ''A1''" "skuKeyOf ?r2 = ''a1''" by code_simp+
  have h2: "\<not> noSkuOrHeader ?r2" "parseInt (Quantity_Available ?r2) = Some 9"
    "resolveLocation exConfig (skuOf ?r2) ?r2 = LocResolved ''L2'' (Some ''Annex'')"
    "combinationKey (skuKeyOf ?r2) (Some ''Annex'') \<notin> {}"
    by code_simp+
  have c2: "fst (classifyRow exConfig exIndex {} ?r2) =
      Rejected (''Skipped SKU A1: SKU don'' @ sq @ ''t have this location (or not stocked)'')
        (''SKU don'' @ sq @ ''t have this location'')"
    using index_lookup_outcomes [OF h2, of exIndex] idx(2) lv(1) by (simp add: k2)
  let ?r3 = "exRow ''A1'' (JNum 5) ''Main''"
  have k3: "skuOf ?r3 = ''A1''" "skuKeyOf ?r3 = ''a1''" by code_simp+
  have h3: "\<not> noSkuOrHeader ?r3" "parseInt (Quantity_Available ?r3) = Some 5"
    "resolveLocation exConfig (skuOf ?r3) ?r3 = LocResolved ''L1'' (Some ''Main'')"
    "combinationKey (skuKeyOf ?r3) (Some ''Main'') \<notin> {}"
    by code_simp+
  have c3: "fst (classifyRow exConfig exIndex {} ?r3) = Skipped ''Quantity already matches''"
    using index_lookup_outcomes [OF h3, of exIndex] idx(2) lv(2) by (simp add: k3)
  let ?r4 = "exRow ''A1'' (JNum 9) ''Main''"
  have k4: "skuOf ?r4 = ''A1''" "skuKeyOf ?r4 = ''a1''" by code_simp+
  have h4: "\<not> noSkuOrHeader ?r4" "parseInt (Quantity_Available ?r4) = Some 9"
    "resolveLocation exConfig (skuOf ?r4) ?r4 = LocResolved ''L1'' (Some ''Main'')"
    "combinationKey (skuKeyOf ?r4) (Some ''Main'') \<notin> {}"
    by code_simp+
  have c4: "fst (classifyRow exConfig exIndex {} ?r4) =
      Accepted \<lparr>upd_inventoryItemId = ''I1'', upd_locationId = ''L1'', upd_quantity = 9\<rparr>"
    using index_lookup_outcomes [OF h4, of exIndex] idx(2) lv(2) by (simp add: k4)
  show ?thesis using c1 c2 c3 c4 by simp
qed

subsection \<open>Duplicates\<close>

lemma recordOutcome_seen:
  "processedCombinations (recordOutcome v r out) = processedCombinations v"
  by (cases out) simp_all

lemma processRow_seen:
  "processedCombinations (processRow cfg skuMap v r) =
     (case duplicateCheckPair cfg r of
        None \<Rightarrow> processedCombinations v
      | Some (k, tid, tn) \<Rightarrow> insert (combinationKey k tn) (processedCombinations v))"
  by (auto simp: processRow_def classifyRow_def duplicateCheckPair_def recordOutcome_seen Let_def
        split: option.splits resolution.splits prod.splits)

lemma foldl_processRow_seen:
  "processedCombinations (foldl (processRow cfg skuMap) v rs) =
     processedCombinations v \<union>
       {combinationKey k tn | k tid tn. \<exists>r \<in> set rs. duplicateCheckPair cfg r = Some (k, tid, tn)}"
proof (induction rs arbitrary: v)
  case Nil
  show ?case by simp
next
  case (Cons r rs)
  show ?case
    by (cases "duplicateCheckPair cfg r")
       (auto simp: Cons.IH processRow_seen split: option.splits prod.splits)
qed

lemma classifyRow_duplicate:
  assumes "duplicateCheckPair cfg r = Some (k, tid, tn)" "combinationKey k tn \<in> seen"
  shows "classifyRow cfg skuMap seen r = (duplicateRejection r, seen)"
  using assms
  by (auto simp: classifyRow_def duplicateCheckPair_def duplicateRejection_def Let_def
        split: option.splits resolution.splits if_splits)

lemma classifyRow_fresh:
  assumes "duplicateCheckPair cfg r = Some (k, tid, tn)" "combinationKey k tn \<notin> seen"
  shows "\<exists>quantity. parseInt (Quantity_Available r) = Some quantity
           \<and> classifyRow cfg skuMap seen r =
               (lookupAndCompare skuMap (skuOf r) k tid quantity, insert (combinationKey k tn) seen)"
  using assms
  by (auto simp: classifyRow_def duplicateCheckPair_def Let_def
        split: option.splits resolution.splits if_splits)

lemma stateBefore_Suc:
  "j < length rows \<Longrightarrow>
     stateBefore cfg skuMap rows (Suc j) = processRow cfg skuMap (stateBefore cfg skuMap rows j) (rows ! j)"
  by (simp add: stateBefore_def take_Suc_conv_app_nth)

lemma stateBefore_all:
  "stateBefore cfg skuMap rows (length rows) = validateRows cfg skuMap rows"
  by (simp add: stateBefore_def validateRows_def)

text \<open>
  Claim C5. When two rows of a run arrive at the duplicate check with the same
  case-folded SKU and the same resolved location, the later one is rejected with ``You
  have identical row having same SKU and location'', whatever the quantities of the two
  rows are; so of the rows with one such pair only the first can go on to the index
  lookup. (A row arrives at the duplicate check when it has a SKU, a quantity that
  \<^verbatim>\<open>parseInt\<close> can read and a location that resolves; a row rejected before that is
  neither recorded as seen nor compared.)
\<close>

theorem later_duplicate_rejected:
  assumes "i < j" "j < length rows"
    and "duplicateCheckPair cfg (rows ! i) = Some p"
    and "duplicateCheckPair cfg (rows ! j) = Some p"
  shows "outcomeAt cfg skuMap rows j = duplicateRejection (rows ! j)"
proof -
  obtain k tid tn where p: "p = (k, tid, tn)" by (cases p) auto
  have "rows ! i \<in> set (take j rows)"
    using assms(1,2) by (metis in_set_conv_nth length_take min.absorb2 nth_take less_imp_le)
  then have "combinationKey k tn \<in> processedCombinations (stateBefore cfg skuMap rows j)"
    using assms(3) p unfolding stateBefore_def foldl_processRow_seen by blast
  then show ?thesis
    using assms(4) p by (simp add: outcomeAt_def classifyRow_duplicate)
qed

theorem later_duplicate_rejected_witness:
  "duplicateCheckPair exConfig (exDuplicateRows ! 0) = Some (''a1'', ''L1'', Some ''Main'')
   \<and> duplicateCheckPair exConfig (exDuplicateRows ! 1) = Some (''a1'', ''L1'', Some ''Main'')
   \<and> outcomeAt exConfig exIndex exDuplicateRows 1 =
       Rejected ''Skipped SKU a1: You have identical row having same SKU and location''
         ''You have identical row having same SKU and location''"
proof -
  have h: "(0::nat) < 1" "1 < length exDuplicateRows"
    "duplicateCheckPair exConfig (exDuplicateRows ! 0) = Some (''a1'', ''L1'', Some ''Main'')"
    "duplicateCheckPair exConfig (exDuplicateRows ! 1) = Some (''a1'', ''L1'', Some ''Main'')"
    by code_simp+
  have d: "duplicateRejection (exDuplicateRows ! 1) =
      Rejected ''Skipped SKU a1: You have identical row having same SKU and location''
        ''You have identical row having same SKU and location''"
    by code_simp
  show ?thesis
    using h(3,4) later_duplicate_rejected [OF h, of exIndex] d by simp
qed

text \<open>
  The first row of a run that brings a combination key is not taken for a duplicate: it
  goes on to the index lookup.
\<close>

lemma first_occurrence_reaches_lookup:
  assumes "j < length rows"
    and "duplicateCheckPair cfg (rows ! j) = Some (k, tid, tn)"
    and "\<forall>i < j. \<forall>k' tid' tn'. duplicateCheckPair cfg (rows ! i) = Some (k', tid', tn')
           \<longrightarrow> combinationKey k' tn' \<noteq> combinationKey k tn"
  shows "\<exists>quantity. parseInt (Quantity_Available (rows ! j)) = Some quantity
           \<and> outcomeAt cfg skuMap rows j = lookupAndCompare skuMap (skuOf (rows ! j)) k tid quantity"
proof -
  have "combinationKey k tn \<notin> processedCombinations (stateBefore cfg skuMap rows j)"
  proof
    assume "combinationKey k tn \<in> processedCombinations (stateBefore cfg skuMap rows j)"
    then obtain k' tid' tn' r where r: "r \<in> set (take j rows)"
      "duplicateCheckPair cfg r = Some (k', tid', tn')" "combinationKey k tn = combinationKey k' tn'"
      unfolding stateBefore_def foldl_processRow_seen
      by (auto simp: initialValidation_def)
    from r(1) obtain i where "i < j" "r = rows ! i"
      using assms(1) by (auto simp: in_set_conv_nth)
    with assms(3) r(2,3) show False by metis
  qed
  from classifyRow_fresh [OF assms(2) this, of skuMap] show ?thesis
    by (auto simp: outcomeAt_def)
qed

subsection \<open>Every row accounted for\<close>

lemma classifyRow_Dropped_iff:
  "(fst (classifyRow cfg skuMap seen r) = Dropped) = noSkuOrHeader r"
  by (auto simp: classifyRow_def lookupAndCompare_def Let_def
        split: option.splits resolution.splits if_splits)

lemma recordOutcome_count:
  "outcomeCount (recordOutcome v r out) = outcomeCount v + (if out = Dropped then 0 else 1)"
  by (cases out) (simp_all add: outcomeCount_def)

lemma recordOutcome_total: "total (report (recordOutcome v r out)) = total (report v)"
  by (cases out) simp_all

lemma processRow_count:
  "outcomeCount (processRow cfg skuMap v r) = outcomeCount v + (if noSkuOrHeader r then 0 else 1)"
proof -
  obtain out seen' where c: "classifyRow cfg skuMap (processedCombinations v) r = (out, seen')"
    by (cases "classifyRow cfg skuMap (processedCombinations v) r") auto
  have "(out = Dropped) = noSkuOrHeader r"
    using classifyRow_Dropped_iff [of cfg skuMap "processedCombinations v" r] c by simp
  then show ?thesis
    by (simp add: processRow_def c recordOutcome_count) (simp add: outcomeCount_def)
qed

lemma processRow_total: "total (report (processRow cfg skuMap v r)) = total (report v)"
  by (simp add: processRow_def recordOutcome_total split: prod.splits)

lemma foldl_processRow_count:
  "outcomeCount (foldl (processRow cfg skuMap) v rs) + length (filter noSkuOrHeader rs)
     = outcomeCount v + length rs"
  by (induction rs arbitrary: v) (simp_all add: processRow_count)

lemma foldl_processRow_total:
  "total (report (foldl (processRow cfg skuMap) v rs)) = total (report v)"
  by (induction rs arbitrary: v) (simp_all add: processRow_total)

text \<open>
  Claim C3, as stated, fails: a row whose SKU is the header text \<^verbatim>\<open>SKU\<close> (or is missing)
  leaves the loop by the bare \<^verbatim>\<open>continue\<close> of its first line. It is counted in
  \<^verbatim>\<open>results.total\<close> and appears in none of the three collections.
\<close>

theorem header_row_has_no_outcome:
  "total (report (validateRows exConfig exIndex [exHeaderRow])) = 1
   \<and> length (bulkUpdates (validateRows exConfig exIndex [exHeaderRow]))
       + length (skippedRows (report (validateRows exConfig exIndex [exHeaderRow])))
       + length (failedRows (report (validateRows exConfig exIndex [exHeaderRow]))) = 0"
  by code_simp

text \<open>
  Claim C3, amended. A row with no SKU, or with the header text as its SKU, produces no
  outcome; every other row produces exactly one outcome, which one step of the loop adds
  to exactly one of the accepted updates, the skipped rows and the failed rows. So the
  total of a run is the number of accepted updates plus the number of skipped rows plus
  the number of failed rows plus the number of rows without SKU or with the header text.
\<close>

theorem rows_accounted_for:
  "total (report (validateRows cfg skuMap rows)) = length rows
   \<and> length (bulkUpdates (validateRows cfg skuMap rows))
       + length (skippedRows (report (validateRows cfg skuMap rows)))
       + length (failedRows (report (validateRows cfg skuMap rows)))
       + length (filter noSkuOrHeader rows) = length rows
   \<and> (\<forall>v r. outcomeCount (processRow cfg skuMap v r)
                = outcomeCount v + (if noSkuOrHeader r then 0 else 1))"
  using foldl_processRow_count [of cfg skuMap "initialValidation rows" rows]
  by (simp add: validateRows_def foldl_processRow_total processRow_count)
     (simp add: outcomeCount_def initialValidation_def initialResults_def)

theorem rows_accounted_for_witness:
  "total (report (validateRows exConfig exIndex exSheet)) = 6
   \<and> length (bulkUpdates (validateRows exConfig exIndex exSheet)) = 1
   \<and> length (skippedRows (report (validateRows exConfig exIndex exSheet))) = 1
   \<and> length (failedRows (report (validateRows exConfig exIndex exSheet))) = 3
   \<and> length (filter noSkuOrHeader exSheet) = 1"
proof -
  have a: "length exSheet = 6" "length (filter noSkuOrHeader exSheet) = 1"
    "length (skippedRows (report (validateRows exConfig exIndex exSheet))) = 1"
    "length (failedRows (report (validateRows exConfig exIndex exSheet))) = 3"
    by code_simp+
  show ?thesis using rows_accounted_for [of exConfig exIndex exSheet] a by simp
qed

subsection \<open>Quantities read by \<^verbatim>\<open>parseInt\<close>\<close>

lemma decimal_digit_not_special:
  assumes "isRadixDigit 10 c"
  shows "\<not> isWhite c" "c \<noteq> CHR ''+''" "c \<noteq> CHR ''-''" "c \<noteq> CHR ''x''" "c \<noteq> CHR ''X''"
  using assms by (auto simp: isRadixDigit_def digitValue_def isWhite_def)

lemma takeWhile_run:
  assumes "\<forall>c \<in> set ds. P c" "rest = [] \<or> \<not> P (hd rest)"
  shows "takeWhile P (ds @ rest) = ds"
proof -
  have "takeWhile P rest = []" using assms(2) by (cases rest) auto
  then show ?thesis using assms(1) by (simp add: takeWhile_append2)
qed

text \<open>
  A run of decimal digits followed by anything that is not a digit is read as the value
  of the run; the one exception is the prefix \<^verbatim>\<open>0x\<close>, which announces a hexadecimal
  number.
\<close>

lemma parseIntString_leading_digits:
  assumes "ds \<noteq> []" and "\<forall>c \<in> set ds. isRadixDigit 10 c"
    and "rest = [] \<or> \<not> isRadixDigit 10 (hd rest)"
    and "\<not> (ds = ''0'' \<and> (take 1 rest = ''x'' \<or> take 1 rest = ''X''))"
  shows "parseIntString (ds @ rest) = Some (int (digitsValue 10 ds))"
proof -
  obtain d ds' where ds: "ds = d # ds'" using assms(1) by (cases ds) auto
  have d: "isRadixDigit 10 d" using assms(2) ds by simp
  note dn = decimal_digit_not_special [OF d]
  define t where "t = ds @ rest"
  have s: "dropWhile isWhite t = t" using ds dn(1) by (simp add: t_def)
  have h: "t \<noteq> []" "hd t \<noteq> CHR ''+''" "hd t \<noteq> CHR ''-''"
    using ds dn(2,3) by (simp_all add: t_def)
  have hex: "\<not> (take 2 t = ''0x'' \<or> take 2 t = ''0X'')"
  proof (cases ds')
    case Nil
    then show ?thesis using assms(4) ds by (cases rest) (auto simp: t_def)
  next
    case (Cons d2 ds'')
    then have "isRadixDigit 10 d2" using assms(2) ds by simp
    from decimal_digit_not_special(4,5) [OF this]
    show ?thesis using ds Cons by (simp add: t_def)
  qed
  have z: "takeWhile (isRadixDigit 10) t = ds"
    unfolding t_def by (rule takeWhile_run [OF assms(2,3)])
  have "parseIntString t = Some (int (digitsValue 10 ds))"
    unfolding parseIntString_def by (simp add: Let_def s h hex z assms(1))
  then show ?thesis by (simp add: t_def)
qed

lemma resolveLocation_cong:
  "Inventory_Location r' = Inventory_Location r \<Longrightarrow>
     resolveLocation cfg sku r' = resolveLocation cfg sku r"
  by (simp add: resolveLocation_def sheetLocationOf_def)

lemma classifyRow_quantity_only:
  assumes "SKU r' = SKU r" "Inventory_Location r' = Inventory_Location r"
    and "parseInt (Quantity_Available r') = parseInt (Quantity_Available r)"
  shows "classifyRow cfg skuMap seen r' = classifyRow cfg skuMap seen r"
proof -
  have a: "skuOf r' = skuOf r" "skuKeyOf r' = skuKeyOf r" "noSkuOrHeader r' = noSkuOrHeader r"
    using assms(1) by (simp_all add: skuOf_def skuKeyOf_def noSkuOrHeader_def)
  have b: "resolveLocation cfg (skuOf r) r' = resolveLocation cfg (skuOf r) r"
    by (rule resolveLocation_cong [OF assms(2)])
  have c: "parseInt (Quantity_Available r') = parseInt (Quantity_Available r)"
    by (rule assms(3))
  show ?thesis
  proof (cases "noSkuOrHeader r")
    case True
    then show ?thesis by (simp add: classifyRow_def a)
  next
    case False
    note nd = this
    show ?thesis
    proof (cases "parseInt (Quantity_Available r)")
      case None
      then show ?thesis using nd by (simp add: classifyRow_def a c)
    next
      case (Some q)
      note q = this
      show ?thesis
      proof (cases "resolveLocation cfg (skuOf r) r")
        case (LocRejected msg reason)
        then show ?thesis using nd q by (simp add: classifyRow_def a b c)
      next
        case (LocThrew m)
        then show ?thesis using nd q by (simp add: classifyRow_def a b c assms(1))
      next
        case (LocResolved tid tn)
        then show ?thesis using nd q by (simp add: classifyRow_def a b c)
      qed
    qed
  qed
qed

lemma resolveLocation_reason:
  "resolveLocation cfg sku r = LocRejected msg reason \<Longrightarrow>
     reason \<noteq> ''Invalid or missing quantity value''"
  by (auto simp: resolveLocation_def sq_def Let_def split: option.splits if_splits)

lemma resolveLocation_threw:
  "resolveLocation cfg sku r = LocThrew m \<Longrightarrow> m \<noteq> ''Invalid or missing quantity value''"
  by (auto simp: resolveLocation_def typeErrorMessage_def sq_def Let_def
        split: option.splits if_splits)

lemma lookupAndCompare_reason:
  "lookupAndCompare skuMap sku skuKey tid q \<noteq> Rejected msg ''Invalid or missing quantity value''"
  by (auto simp: lookupAndCompare_def sq_def split: option.splits)

lemma invalid_quantity_iff:
  assumes "\<not> noSkuOrHeader r"
  shows "(fst (classifyRow cfg skuMap seen r) = invalidQuantityRejection r)
           = (parseInt (Quantity_Available r) = None)"
proof (cases "parseInt (Quantity_Available r)")
  case None
  then show ?thesis using assms by (simp add: classifyRow_def invalidQuantityRejection_def)
next
  case (Some q)
  show ?thesis
  proof (cases "resolveLocation cfg (skuOf r) r")
    case (LocRejected msg reason)
    then show ?thesis using assms Some resolveLocation_reason [OF LocRejected]
      by (simp add: classifyRow_def invalidQuantityRejection_def)
  next
    case (LocThrew m)
    then show ?thesis using assms Some resolveLocation_threw [OF LocThrew]
      by (simp add: classifyRow_def invalidQuantityRejection_def)
  next
    case (LocResolved tid tn)
    then show ?thesis using assms Some lookupAndCompare_reason
      by (simp add: classifyRow_def invalidQuantityRejection_def Let_def)
  qed
qed

text \<open>
  Claim C10. For a row that has a SKU, the quantity is what \<^verbatim>\<open>parseInt\<close> reads from the
  field: the row is rejected for an invalid quantity exactly when \<^verbatim>\<open>parseInt\<close> finds no
  leading integer, and otherwise its classification depends on the field only through the
  integer read. In particular a field made of decimal digits followed by other characters
  or by a fractional part (as in \<^verbatim>\<open>5.7\<close> or \<^verbatim>\<open>5x\<close>) is read as the value of the digits, and
  the row is classified exactly as the row that has the digits alone, which can be an
  accepted update.
\<close>

theorem quantity_truncated_by_parseInt:
  assumes "\<not> noSkuOrHeader r"
  shows "((fst (classifyRow cfg skuMap seen r) = invalidQuantityRejection r)
            = (parseInt (Quantity_Available r) = None))
       \<and> (\<forall>r'. SKU r' = SKU r \<and> Inventory_Location r' = Inventory_Location r
                \<and> parseInt (Quantity_Available r') = parseInt (Quantity_Available r)
              \<longrightarrow> classifyRow cfg skuMap seen r' = classifyRow cfg skuMap seen r)
       \<and> (\<forall>ds rest.
              Quantity_Available r = JStr (ds @ rest) \<and> ds \<noteq> []
                \<and> (\<forall>c \<in> set ds. isRadixDigit 10 c)
                \<and> (rest = [] \<or> \<not> isRadixDigit 10 (hd rest))
                \<and> \<not> (ds = ''0'' \<and> (take 1 rest = ''x'' \<or> take 1 rest = ''X''))
              \<longrightarrow> parseInt (Quantity_Available r) = Some (int (digitsValue 10 ds))
                  \<and> classifyRow cfg skuMap seen r
                      = classifyRow cfg skuMap seen (r\<lparr>Quantity_Available := JStr ds\<rparr>))"
proof (intro conjI allI impI)
  show "(fst (classifyRow cfg skuMap seen r) = invalidQuantityRejection r)
          = (parseInt (Quantity_Available r) = None)"
    by (rule invalid_quantity_iff [OF assms])
next
  fix r' :: row
  assume "SKU r' = SKU r \<and> Inventory_Location r' = Inventory_Location r
            \<and> parseInt (Quantity_Available r') = parseInt (Quantity_Available r)"
  then show "classifyRow cfg skuMap seen r' = classifyRow cfg skuMap seen r"
    by (intro classifyRow_quantity_only) simp_all
next
  fix ds rest
  assume a: "Quantity_Available r = JStr (ds @ rest) \<and> ds \<noteq> []
                \<and> (\<forall>c \<in> set ds. isRadixDigit 10 c)
                \<and> (rest = [] \<or> \<not> isRadixDigit 10 (hd rest))
                \<and> \<not> (ds = ''0'' \<and> (take 1 rest = ''x'' \<or> take 1 rest = ''X''))"
  then have p: "parseIntString (ds @ rest) = Some (int (digitsValue 10 ds))"
    by (intro parseIntString_leading_digits) auto
  from a have "parseIntString (ds @ []) = Some (int (digitsValue 10 ds))"
    by (intro parseIntString_leading_digits) auto
  then have q: "parseInt (JStr ds) = Some (int (digitsValue 10 ds))"
    by (simp add: parseInt_def)
  show "parseInt (Quantity_Available r) = Some (int (digitsValue 10 ds))"
    using a p by (simp add: parseInt_def)
  then show "classifyRow cfg skuMap seen r
               = classifyRow cfg skuMap seen (r\<lparr>Quantity_Available := JStr ds\<rparr>)"
    using q by (intro classifyRow_quantity_only [symmetric]) simp_all
qed

theorem quantity_truncated_by_parseInt_witness:
  "parseInt (JStr ''5.7'') = Some 5
   \<and> parseInt (JStr ''5x'') = Some 5
   \<and> fst (classifyRow exConfig exIndex {} (exRow ''B2'' (JStr ''5.7'') ''main''))
       = Accepted \<lparr>upd_inventoryItemId = ''I2'', upd_locationId = ''L1'', upd_quantity = 5\<rparr>
   \<and> fst (classifyRow exConfig exIndex {} (exRow ''B2'' (JStr ''5.7'') ''main''))
       \<noteq> invalidQuantityRejection (exRow ''B2'' (JStr ''5.7'') ''main'')"
proof -
  let ?r = "exRow ''B2'' (JStr ''5.7'') ''main''"
  have h: "\<not> noSkuOrHeader ?r" by code_simp
  have a: "Quantity_Available ?r = JStr (''5'' @ ''.7'') \<and> ''5'' \<noteq> []
             \<and> (\<forall>c \<in> set ''5''. isRadixDigit 10 c)
             \<and> (''.7'' = [] \<or> \<not> isRadixDigit 10 (hd ''.7''))
             \<and> \<not> (''5'' = ''0'' \<and> (take 1 ''.7'' = ''x'' \<or> take 1 ''.7'' = ''X''))"
    by (simp add: exRow_def isRadixDigit_def digitValue_def)
  have v: "digitsValue 10 ''5'' = 5" by code_simp
  have e: "?r\<lparr>Quantity_Available := JStr ''5''\<rparr> = exRow ''B2'' (JStr ''5'') ''main''"
    by (simp add: exRow_def)
  have c: "fst (classifyRow exConfig exIndex {} (exRow ''B2'' (JStr ''5'') ''main''))
       = Accepted \<lparr>upd_inventoryItemId = ''I2'', upd_locationId = ''L1'', upd_quantity = 5\<rparr>"
    by code_simp
  have x: "parseInt (JStr ''5x'') = Some 5" by code_simp
  note t = quantity_truncated_by_parseInt [OF h, of exConfig exIndex "{}"]
  note t3 = t [THEN conjunct2, THEN conjunct2, rule_format, OF a]
  from t3 have p: "parseInt (Quantity_Available ?r) = Some (int (digitsValue 10 ''5''))"
    and q: "classifyRow exConfig exIndex {} ?r
              = classifyRow exConfig exIndex {} (?r\<lparr>Quantity_Available := JStr ''5''\<rparr>)"
    by (rule conjunct1, rule conjunct2)
  from p have p': "parseInt (JStr ''5.7'') = Some 5" by (simp add: v exRow_def)
  from t [THEN conjunct1] p
  have n: "fst (classifyRow exConfig exIndex {} ?r) \<noteq> invalidQuantityRejection ?r"
    by simp
  show ?thesis using p' x q e c n by simp
qed

section \<open>The import action: index building and the staged upload\<close>

lemma prefetch_rejects:
  assumes "\<forall>p \<in> set ps. continues p"
  shows "prefetch (ps @ Rejects # rest) skuMap cursor = Some (Threw, requestsFor cursor ps)"
  using assms
proof (induction ps arbitrary: skuMap cursor)
  case Nil
  show ?case by (simp add: requestsFor_def)
next
  case (Cons p ps)
  then obtain response where p: "p = Resolves response" "nextPageOf response"
    by (cases p) auto
  show ?case using Cons p by (simp add: requestsFor_def)
qed

lemma prefetch_stops:
  assumes "\<forall>p \<in> set ps. continues p" "\<not> nextPageOf response"
  shows "prefetch (ps @ Resolves response # rest) skuMap cursor =
           Some (Returned (addPage (foldl addAnswer skuMap ps) response), requestsFor cursor ps)"
  using assms
proof (induction ps arbitrary: skuMap cursor)
  case Nil
  then show ?case by (simp add: requestsFor_def)
next
  case (Cons p ps)
  then obtain r where p: "p = Resolves r" "nextPageOf r"
    by (cases p) auto
  show ?case using Cons p by (simp add: requestsFor_def)
qed

lemma requestsFor_no_stage: "filter isStageCall (requestsFor cursor ps) = []"
  by (simp add: requestsFor_def isStageCall_def filter_empty_conv)

lemma fetchRunConfig_no_stage:
  "fetchRunConfig loc remote = (result, calls) \<Longrightarrow> filter isStageCall calls = []"
  by (auto simp: fetchRunConfig_def isStageCall_def split: if_splits remote.splits)

text \<open>
  Claim C2, as stated, fails: the loop takes a response that carries no data for the end
  of the listing. Here the first page announces a further page and the request for that
  page is answered without data; the action goes on with the index of the first page
  alone, reports the variant of the second page as not found, and submits the batch.
\<close>

theorem partial_index_is_used:
  "importAction ''ALL_LOCATIONS'' exRows
     (exRemote\<lparr>inventoryPages := [Resolves exPage1, Resolves None]\<rparr>) =
   Some
    (Returned
      \<lparr>total = 2, updated = 0,
         errors = [''Variant not found for SKU: B2''],
         failedRows = [(exRow ''B2'' (JNum 3) ''Main'', ''Variant not found'')],
         skippedRows = [],
         bulkOperationId = Some ''gid://shopify/BulkOperation/1''\<rparr>,
     [GetLocations, GetInventoryData None, GetInventoryData (Some ''c1''),
      StagedUploadsCreate,
      Upload ''https://upload.example''
        [[\<lparr>upd_inventoryItemId = ''I1'', upd_locationId = ''L1'', upd_quantity = 9\<rparr>]],
      BulkOperationRunMutation (Some ''tmp/updates.jsonl'')])"
  by code_simp

text \<open>
  Claim C2, amended. Once the configuration of the run is fetched, and while every
  answer so far announces a further page: if the request
  for the next page rejects, the exception leaves the action, which has then made no
  request but those for its configuration and for the pages, so no row is validated and
  nothing is uploaded or submitted; if the request is answered by a response that
  announces no further page (because it is the last page, or because it carries no data
  or no page information), the loop ends and the action validates the rows and submits
  the batch with the index built from the answers read so far.
\<close>

theorem index_build_failure:
  assumes "fetchRunConfig loc remote = (Returned cfg, calls)"
    and "\<forall>p \<in> set ps. continues p"
  shows "(inventoryPages remote = ps @ Rejects # rest \<longrightarrow>
            importAction loc rows remote = Some (Threw, calls @ requestsFor None ps)
            \<and> filter isStageCall (calls @ requestsFor None ps) = [])
       \<and> (\<forall>response.
            inventoryPages remote = ps @ Resolves response # rest \<and> \<not> nextPageOf response \<longrightarrow>
            importAction loc rows remote =
              (case validateAndSubmit cfg (addPage (foldl addAnswer Map.empty ps) response) rows remote of
                 (result, stageCalls) \<Rightarrow> Some (result, calls @ requestsFor None ps @ stageCalls)))"
  using assms(1) prefetch_rejects [OF assms(2)] prefetch_stops [OF assms(2)]
    requestsFor_no_stage fetchRunConfig_no_stage [OF assms(1)]
  by (simp add: importAction_def)

theorem index_build_failure_witness:
  "importAction ''ALL_LOCATIONS'' exRows
     (exRemote\<lparr>inventoryPages := [Resolves exPage1, Rejects, Resolves exPage2]\<rparr>) =
     Some (Threw, [GetLocations, GetInventoryData None, GetInventoryData (Some ''c1'')])
   \<and> importAction ''ALL_LOCATIONS'' exRows
       (exRemote\<lparr>inventoryPages := [Resolves exPage1, Resolves None, Resolves exPage2]\<rparr>) =
     (case validateAndSubmit exConfig (addPage (addPage Map.empty exPage1) None) exRows
             (exRemote\<lparr>inventoryPages := [Resolves exPage1, Resolves None, Resolves exPage2]\<rparr>) of
        (result, stageCalls) \<Rightarrow>
          Some (result, [GetLocations, GetInventoryData None, GetInventoryData (Some ''c1'')] @ stageCalls))"
proof -
  let ?r1 = "exRemote\<lparr>inventoryPages := [Resolves exPage1, Rejects, Resolves exPage2]\<rparr>"
  let ?r2 = "exRemote\<lparr>inventoryPages := [Resolves exPage1, Resolves None, Resolves exPage2]\<rparr>"
  have c1: "fetchRunConfig ''ALL_LOCATIONS'' ?r1 = (Returned exConfig, [GetLocations])"
    and c2: "fetchRunConfig ''ALL_LOCATIONS'' ?r2 = (Returned exConfig, [GetLocations])"
    by (simp_all add: fetchRunConfig_def exRemote_def exConfig_def)
  have k: "\<forall>p \<in> set [Resolves exPage1]. continues p"
    by (simp add: exPage1_def nextPageOf_def)
  have p1: "inventoryPages ?r1 = [Resolves exPage1] @ Rejects # [Resolves exPage2]"
    and p2: "inventoryPages ?r2 = [Resolves exPage1] @ Resolves None # [Resolves exPage2]
               \<and> \<not> nextPageOf None"
    by (simp_all add: nextPageOf_def)
  have q: "requestsFor None [Resolves exPage1] = [GetInventoryData None, GetInventoryData (Some ''c1'')]"
    by (simp add: requestsFor_def endCursorOf_def exPage1_def)
  from index_build_failure [OF c1 k, of "[Resolves exPage2]" exRows, THEN conjunct1, rule_format, OF p1]
  have a: "importAction ''ALL_LOCATIONS'' exRows ?r1 =
      Some (Threw, [GetLocations, GetInventoryData None, GetInventoryData (Some ''c1'')])"
    by (simp add: q)
  from index_build_failure [OF c2 k, of "[Resolves exPage2]" exRows, THEN conjunct2, rule_format, OF p2]
  have b: "importAction ''ALL_LOCATIONS'' exRows ?r2 =
     (case validateAndSubmit exConfig (addPage (addPage Map.empty exPage1) None) exRows ?r2 of
        (result, stageCalls) \<Rightarrow>
          Some (result, [GetLocations, GetInventoryData None, GetInventoryData (Some ''c1'')] @ stageCalls))"
    by (simp add: q)
  show ?thesis using a b by simp
qed

subsection \<open>Failures of the staged upload\<close>

lemma pipeline_target_failed:
  assumes "stagedResponse remote = Resolves body" "targetRequestFailed body"
  shows "\<exists>e. stagedUploadPipeline res jsonl remote
           = (Returned (res\<lparr>errors := errors res @ [e]\<rparr>), [StagedUploadsCreate])"
  using assms
  by (auto simp: stagedUploadPipeline_def targetRequestFailed_def pushError_def Let_def
        split: option.splits)

lemma pipeline_upload_failed:
  assumes "stagedResponse remote = Resolves body" "\<not> targetRequestFailed body"
    and "uploadResponse remote = Resolves u" "\<not> ok u"
  shows "\<exists>url. stagedUploadPipeline res jsonl remote =
           (Returned (res\<lparr>errors := errors res @ [''Upload failed: '' @ statusText u]\<rparr>),
            [StagedUploadsCreate, Upload url jsonl])"
  using assms
  by (auto simp: stagedUploadPipeline_def targetRequestFailed_def pushError_def Let_def
        split: option.splits)

lemma afterTrigger_failed:
  "triggerFailed bd \<Longrightarrow> \<exists>e. afterTrigger res bd = res\<lparr>errors := errors res @ [e]\<rparr>"
  by (auto simp: afterTrigger_def triggerFailed_def nonEmptyList_def present_def pushError_def
        split: option.splits list.splits)

lemma pipeline_trigger_failed:
  assumes "stagedResponse remote = Resolves body" "\<not> targetRequestFailed body"
    and "uploadResponse remote = Resolves u" "ok u"
    and "bulkRunResponse remote = Resolves bd" "triggerFailed bd"
  shows "\<exists>e url path. stagedUploadPipeline res jsonl remote =
           (Returned (res\<lparr>errors := errors res @ [e]\<rparr>),
            [StagedUploadsCreate, Upload url jsonl, BulkOperationRunMutation path])"
  using assms afterTrigger_failed [OF assms(6), of res]
  by (auto simp: stagedUploadPipeline_def targetRequestFailed_def Let_def split: option.splits)

lemma pipeline_rejects:
  assumes "stagedResponse remote = Rejects
     \<or> (\<exists>body. stagedResponse remote = Resolves body \<and> \<not> targetRequestFailed body
            \<and> (uploadResponse remote = Rejects
                \<or> (\<exists>u. uploadResponse remote = Resolves u \<and> ok u \<and> bulkRunResponse remote = Rejects)))"
  shows "fst (stagedUploadPipeline res jsonl remote) = Threw"
  using assms
  by (auto simp: stagedUploadPipeline_def targetRequestFailed_def Let_def split: option.splits)

lemma importAction_submits:
  assumes "fetchRunConfig loc remote = (Returned cfg, calls)"
    and "prefetch (inventoryPages remote) Map.empty None = Some (Returned skuMap, pageCalls)"
    and "bulkUpdates (validateRows cfg skuMap rows) \<noteq> []"
  shows "importAction loc rows remote =
           (case stagedUploadPipeline (report (validateRows cfg skuMap rows))
                   (planBatches (bulkUpdates (validateRows cfg skuMap rows)) [] []) remote of
              (result, stageCalls) \<Rightarrow> Some (result, calls @ pageCalls @ stageCalls))"
  using assms by (simp add: importAction_def validateAndSubmit_def Let_def)

text \<open>
  Claim C7, as stated, fails: a stage can also fail by the rejection of its request, and
  nothing in the action catches that. Here the upload request rejects; the action throws
  and returns no report, although the validation had skipped a row.
\<close>

theorem upload_rejection_loses_report:
  "importAction ''ALL_LOCATIONS'' exRows (exRemote\<lparr>uploadResponse := Rejects\<rparr>) =
     Some (Threw,
       [GetLocations, GetInventoryData None, GetInventoryData (Some ''c1''),
        StagedUploadsCreate,
        Upload ''https://upload.example''
          [[\<lparr>upd_inventoryItemId = ''I1'', upd_locationId = ''L1'', upd_quantity = 9\<rparr>]]])
   \<and> skippedRows
        (report (validateRows exConfig (addPage (addPage Map.empty exPage1) exPage2) exRows))
       = [(exRow ''B2'' (JNum 3) ''Main'', ''Quantity already matches'')]"
  by code_simp

text \<open>
  Claim C7, amended. When the validation has queued at least one update and a stage of
  the upload reports its failure in its response (user errors or no target from the
  target request, a response that is not \<^verbatim>\<open>ok\<close> from the upload, user errors or no
  operation id from the trigger), the action makes no further request and returns the
  report of the validation with exactly one more error at the end of its error list and
  nothing else changed. When the request of a stage rejects, the exception leaves the
  action and no report is returned.
\<close>

theorem stage_failure_keeps_report:
  assumes "fetchRunConfig loc remote = (Returned cfg, calls)"
    and "prefetch (inventoryPages remote) Map.empty None = Some (Returned skuMap, pageCalls)"
    and "bulkUpdates (validateRows cfg skuMap rows) \<noteq> []"
  shows "(\<forall>body. stagedResponse remote = Resolves body \<and> targetRequestFailed body \<longrightarrow>
           (\<exists>e. importAction loc rows remote =
              Some (Returned ((report (validateRows cfg skuMap rows))
                               \<lparr>errors := errors (report (validateRows cfg skuMap rows)) @ [e]\<rparr>),
                    calls @ pageCalls @ [StagedUploadsCreate])))
       \<and> (\<forall>body u. stagedResponse remote = Resolves body \<and> \<not> targetRequestFailed body
               \<and> uploadResponse remote = Resolves u \<and> \<not> ok u \<longrightarrow>
           (\<exists>url. importAction loc rows remote =
              Some (Returned ((report (validateRows cfg skuMap rows))
                               \<lparr>errors := errors (report (validateRows cfg skuMap rows))
                                           @ [''Upload failed: '' @ statusText u]\<rparr>),
                    calls @ pageCalls
                      @ [StagedUploadsCreate,
                         Upload url (planBatches (bulkUpdates (validateRows cfg skuMap rows)) [] [])])))
       \<and> (\<forall>body u bd. stagedResponse remote = Resolves body \<and> \<not> targetRequestFailed body
               \<and> uploadResponse remote = Resolves u \<and> ok u
               \<and> bulkRunResponse remote = Resolves bd \<and> triggerFailed bd \<longrightarrow>
           (\<exists>e url path. importAction loc rows remote =
              Some (Returned ((report (validateRows cfg skuMap rows))
                               \<lparr>errors := errors (report (validateRows cfg skuMap rows)) @ [e]\<rparr>),
                    calls @ pageCalls
                      @ [StagedUploadsCreate,
                         Upload url (planBatches (bulkUpdates (validateRows cfg skuMap rows)) [] []),
                         BulkOperationRunMutation path])))
       \<and> (stagedResponse remote = Rejects
            \<or> (\<exists>body. stagedResponse remote = Resolves body \<and> \<not> targetRequestFailed body
                  \<and> (uploadResponse remote = Rejects
                      \<or> (\<exists>u. uploadResponse remote = Resolves u \<and> ok u
                             \<and> bulkRunResponse remote = Rejects))) \<longrightarrow>
           (\<exists>log. importAction loc rows remote = Some (Threw, log)))"
proof (intro conjI allI impI)
  fix body
  assume a: "stagedResponse remote = Resolves body \<and> targetRequestFailed body"
  from a pipeline_target_failed [of remote body]
  obtain e where "stagedUploadPipeline (report (validateRows cfg skuMap rows))
        (planBatches (bulkUpdates (validateRows cfg skuMap rows)) [] []) remote
      = (Returned ((report (validateRows cfg skuMap rows))
                     \<lparr>errors := errors (report (validateRows cfg skuMap rows)) @ [e]\<rparr>),
         [StagedUploadsCreate])"
    by blast
  then have "importAction loc rows remote =
              Some (Returned ((report (validateRows cfg skuMap rows))
                               \<lparr>errors := errors (report (validateRows cfg skuMap rows)) @ [e]\<rparr>),
                    calls @ pageCalls @ [StagedUploadsCreate])"
    by (simp add: importAction_submits [OF assms])
  then show "\<exists>e. importAction loc rows remote =
              Some (Returned ((report (validateRows cfg skuMap rows))
                               \<lparr>errors := errors (report (validateRows cfg skuMap rows)) @ [e]\<rparr>),
                    calls @ pageCalls @ [StagedUploadsCreate])"
    by blast
next
  fix body u
  assume a: "stagedResponse remote = Resolves body \<and> \<not> targetRequestFailed body
               \<and> uploadResponse remote = Resolves u \<and> \<not> ok u"
  from a pipeline_upload_failed [of remote body u]
  obtain url where "stagedUploadPipeline (report (validateRows cfg skuMap rows))
        (planBatches (bulkUpdates (validateRows cfg skuMap rows)) [] []) remote
      = (Returned ((report (validateRows cfg skuMap rows))
                     \<lparr>errors := errors (report (validateRows cfg skuMap rows))
                                 @ [''Upload failed: '' @ statusText u]\<rparr>),
         [StagedUploadsCreate,
          Upload url (planBatches (bulkUpdates (validateRows cfg skuMap rows)) [] [])])"
    by blast
  then have "importAction loc rows remote =
              Some (Returned ((report (validateRows cfg skuMap rows))
                               \<lparr>errors := errors (report (validateRows cfg skuMap rows))
                                           @ [''Upload failed: '' @ statusText u]\<rparr>),
                    calls @ pageCalls
                      @ [StagedUploadsCreate,
                         Upload url (planBatches (bulkUpdates (validateRows cfg skuMap rows)) [] [])])"
    by (simp add: importAction_submits [OF assms])
  then show "\<exists>url. importAction loc rows remote =
              Some (Returned ((report (validateRows cfg skuMap rows))
                               \<lparr>errors := errors (report (validateRows cfg skuMap rows))
                                           @ [''Upload failed: '' @ statusText u]\<rparr>),
                    calls @ pageCalls
                      @ [StagedUploadsCreate,
                         Upload url (planBatches (bulkUpdates (validateRows cfg skuMap rows)) [] [])])"
    by blast
next
  fix body u bd
  assume a: "stagedResponse remote = Resolves body \<and> \<not> targetRequestFailed body
               \<and> uploadResponse remote = Resolves u \<and> ok u
               \<and> bulkRunResponse remote = Resolves bd \<and> triggerFailed bd"
  from a pipeline_trigger_failed [of remote body u bd]
  obtain e url path where "stagedUploadPipeline (report (validateRows cfg skuMap rows))
        (planBatches (bulkUpdates (validateRows cfg skuMap rows)) [] []) remote
      = (Returned ((report (validateRows cfg skuMap rows))
                     \<lparr>errors := errors (report (validateRows cfg skuMap rows)) @ [e]\<rparr>),
         [StagedUploadsCreate,
          Upload url (planBatches (bulkUpdates (validateRows cfg skuMap rows)) [] []),
          BulkOperationRunMutation path])"
    by blast
  then have "importAction loc rows remote =
              Some (Returned ((report (validateRows cfg skuMap rows))
                               \<lparr>errors := errors (report (validateRows cfg skuMap rows)) @ [e]\<rparr>),
                    calls @ pageCalls
                      @ [StagedUploadsCreate,
                         Upload url (planBatches (bulkUpdates (validateRows cfg skuMap rows)) [] []),
                         BulkOperationRunMutation path])"
    by (simp add: importAction_submits [OF assms])
  then show "\<exists>e url path. importAction loc rows remote =
              Some (Returned ((report (validateRows cfg skuMap rows))
                               \<lparr>errors := errors (report (validateRows cfg skuMap rows)) @ [e]\<rparr>),
                    calls @ pageCalls
                      @ [StagedUploadsCreate,
                         Upload url (planBatches (bulkUpdates (validateRows cfg skuMap rows)) [] []),
                         BulkOperationRunMutation path])"
    by blast
next
  assume a: "stagedResponse remote = Rejects
            \<or> (\<exists>body. stagedResponse remote = Resolves body \<and> \<not> targetRequestFailed body
                  \<and> (uploadResponse remote = Rejects
                      \<or> (\<exists>u. uploadResponse remote = Resolves u \<and> ok u
                             \<and> bulkRunResponse remote = Rejects)))"
  have "fst (stagedUploadPipeline (report (validateRows cfg skuMap rows))
        (planBatches (bulkUpdates (validateRows cfg skuMap rows)) [] []) remote) = Threw"
    by (rule pipeline_rejects [OF a])
  then show "\<exists>log. importAction loc rows remote = Some (Threw, log)"
    by (cases "stagedUploadPipeline (report (validateRows cfg skuMap rows))
        (planBatches (bulkUpdates (validateRows cfg skuMap rows)) [] []) remote")
       (simp add: importAction_submits [OF assms])
qed

theorem stage_failure_keeps_report_witness:
  "\<exists>url. importAction ''ALL_LOCATIONS'' exRows
       (exRemote\<lparr>uploadResponse := Resolves \<lparr>ok = False, statusText = ''Forbidden''\<rparr>\<rparr>) =
     Some
      (Returned
        \<lparr>total = 2, updated = 0,
           errors = [''Upload failed: Forbidden''],
           failedRows = [],
           skippedRows = [(exRow ''B2'' (JNum 3) ''Main'', ''Quantity already matches'')],
           bulkOperationId = None\<rparr>,
       [GetLocations, GetInventoryData None, GetInventoryData (Some ''c1''),
        StagedUploadsCreate,
        Upload url [[\<lparr>upd_inventoryItemId = ''I1'', upd_locationId = ''L1'', upd_quantity = 9\<rparr>]]])"
proof -
  let ?remote = "exRemote\<lparr>uploadResponse := Resolves \<lparr>ok = False, statusText = ''Forbidden''\<rparr>\<rparr>"
  let ?idx = "addPage (addPage Map.empty exPage1) exPage2"
  let ?body = "Some \<lparr>stageErrors = None,
                      stagedUploadsCreate =
                        Some \<lparr>sc_userErrors = Some [], stagedTargets = Some [exTarget]\<rparr>\<rparr>"
  let ?u = "\<lparr>ok = False, statusText = ''Forbidden''\<rparr>"
  have h1: "fetchRunConfig ''ALL_LOCATIONS'' ?remote = (Returned exConfig, [GetLocations])"
    by (simp add: fetchRunConfig_def exRemote_def exConfig_def)
  have h2: "prefetch (inventoryPages ?remote) Map.empty None =
      Some (Returned ?idx, [GetInventoryData None, GetInventoryData (Some ''c1'')])"
    by (simp add: exRemote_def nextPageOf_def endCursorOf_def exPage1_def exPage2_def)
  have h3: "bulkUpdates (validateRows exConfig ?idx exRows) \<noteq> []"
    by code_simp
  have s: "stagedResponse ?remote = Resolves ?body \<and> \<not> targetRequestFailed ?body
             \<and> uploadResponse ?remote = Resolves ?u \<and> \<not> ok ?u"
    by (simp add: exRemote_def targetRequestFailed_def stagedDataOf_def nonEmptyList_def
          createUserErrors_def firstTarget_def)
  have r: "report (validateRows exConfig ?idx exRows) =
      \<lparr>total = 2, updated = 0, errors = [], failedRows = [],
         skippedRows = [(exRow ''B2'' (JNum 3) ''Main'', ''Quantity already matches'')],
         bulkOperationId = None\<rparr>"
    by code_simp
  have b: "planBatches (bulkUpdates (validateRows exConfig ?idx exRows)) [] [] =
      [[\<lparr>upd_inventoryItemId = ''I1'', upd_locationId = ''L1'', upd_quantity = 9\<rparr>]]"
    by code_simp
  from stage_failure_keeps_report [OF h1 h2 h3,
      THEN conjunct2, THEN conjunct1, rule_format, OF s]
  show ?thesis by (simp add: r b)
qed

section \<open>Malformed lines of a result artifact\<close>

text \<open>
  The tree builder of the export catches the exception of a line inside the loop body:
  a malformed line changes nothing, and the lines after it are handled as if it were not
  there.
\<close>

lemma buildTree_drops_malformed_line:
  "buildTree (before @ None # after) b = buildTree (before @ after) b"
  by (induction before b rule: buildTree.induct) simp_all

lemma exportRows_drops_malformed_line:
  "exportRows lp (before @ None # after) = exportRows lp (before @ after)"
  by (simp add: exportRows_def buildTree_drops_malformed_line)

lemma buildTree_skips_malformed:
  "buildTree ls b = buildTree (filter (\<lambda>l. l \<noteq> None) ls) b"
  by (induction ls b rule: buildTree.induct) simp_all

text \<open>
  The scan of the result of the write job catches the exception around the whole loop:
  it ends at the first malformed line, and the lines after it are never read.
\<close>

lemma scanWriteLines_stops:
  "scanWriteLines (before @ None # after) acc = scanWriteLines before acc"
  by (induction before acc rule: scanWriteLines.induct) simp_all

text \<open>
  Claim C4 holds for the artifact of the read job and fails for the artifact of the write
  job. On an artifact of three lines whose second line is malformed and whose third line
  reports a user error, the polling loader returns one update and no error: the third
  line is lost.
\<close>

theorem write_scan_stops_at_malformed_line:
  "completedBulkResults (JStr ''3'')
     (Some (Resolves [Some [], None, Some [''The quantity is invalid'']]))
     = \<lparr>br_updated = 1, br_errors = []\<rparr>
   \<and> completedBulkResults (JStr ''3'')
     (Some (Resolves [Some [], Some [''The quantity is invalid'']]))
     = \<lparr>br_updated = 1, br_errors = [''The quantity is invalid'']\<rparr>"
  by (simp add: completedBulkResults_def)

section \<open>The merged report\<close>

text \<open>
  Claim C8. The merged report has the sum of the two updated counts and the immediate
  error list followed by the deferred one; its failed rows, skipped rows, total and
  operation id are those of the immediate report. So an error of a unit in the result of
  the write job is one more entry of the error list and never one more failed row.
\<close>

theorem merge_adds_counts_and_appends_errors:
  "updated (mergeResults v (Some b)) = updated v + br_updated b
   \<and> errors (mergeResults v (Some b)) = errors v @ br_errors b
   \<and> failedRows (mergeResults v (Some b)) = failedRows v
   \<and> skippedRows (mergeResults v (Some b)) = skippedRows v
   \<and> total (mergeResults v (Some b)) = total v
   \<and> bulkOperationId (mergeResults v (Some b)) = bulkOperationId v
   \<and> mergeResults v None = v
   \<and> failedRows (mergeResults v (Some (completedBulkResults objectCount artifact))) = failedRows v"
  by (simp add: mergeResults_def Let_def)

theorem merge_adds_counts_and_appends_errors_witness:
  "mergeResults
     \<lparr>total = 3, updated = 0, errors = [''Variant not found for SKU: ZZ''],
        failedRows = [(exRow ''ZZ'' (JNum 1) ''Main'', ''Variant not found'')],
        skippedRows = [], bulkOperationId = Some ''gid://shopify/BulkOperation/1''\<rparr>
     (Some (completedBulkResults (JStr ''2'')
        (Some (Resolves [Some [], Some [''The quantity is invalid'']]))))
   = \<lparr>total = 3, updated = 1,
        errors = [''Variant not found for SKU: ZZ'', ''The quantity is invalid''],
        failedRows = [(exRow ''ZZ'' (JNum 1) ''Main'', ''Variant not found'')],
        skippedRows = [], bulkOperationId = Some ''gid://shopify/BulkOperation/1''\<rparr>"
proof -
  let ?v = "\<lparr>total = 3, updated = 0, errors = [''Variant not found for SKU: ZZ''],
        failedRows = [(exRow ''ZZ'' (JNum 1) ''Main'', ''Variant not found'')],
        skippedRows = [], bulkOperationId = Some ''gid://shopify/BulkOperation/1''\<rparr>"
  let ?b = "completedBulkResults (JStr ''2'')
        (Some (Resolves [Some [], Some [''The quantity is invalid'']]))"
  have b: "br_updated ?b = 1" "br_errors ?b = [''The quantity is invalid'']"
    by (simp_all add: completedBulkResults_def)
  from merge_adds_counts_and_appends_errors [of ?v ?b]
  have "updated (mergeResults ?v (Some ?b)) = 1"
    "errors (mergeResults ?v (Some ?b)) = [''Variant not found for SKU: ZZ'', ''The quantity is invalid'']"
    "failedRows (mergeResults ?v (Some ?b)) = [(exRow ''ZZ'' (JNum 1) ''Main'', ''Variant not found'')]"
    "skippedRows (mergeResults ?v (Some ?b)) = []"
    "total (mergeResults ?v (Some ?b)) = 3"
    "bulkOperationId (mergeResults ?v (Some ?b)) = Some ''gid://shopify/BulkOperation/1''"
    by (simp_all add: b)
  then show ?thesis
    by (cases "mergeResults ?v (Some ?b)") simp
qed

section \<open>The projection of the export\<close>

lemma filterByLocation_complete:
  assumes "\<forall>l \<in> set ls. completeLevel l"
  shows "filterByLocation lid ls = Some (filter (atLocation lid) ls)"
  using assms
  by (induction ls) (auto simp: completeLevel_def atLocation_def split: option.splits)

lemma levelRow_complete:
  "completeLevel l \<Longrightarrow> levelRow title v l = Some (rowOfLevel title v l)"
  by (auto simp: completeLevel_def levelRow_def rowOfLevel_def split: option.splits list.splits)

lemma levelRows_complete:
  assumes "\<forall>l \<in> set ls. completeLevel l"
  shows "levelRows title v ls = Some (map (rowOfLevel title v) ls)"
  using assms by (induction ls) (simp_all add: levelRow_complete)

lemma projectVariant_complete:
  assumes "\<forall>l \<in> set (levelsOf v). completeLevel l"
  shows "projectVariant lp title v = Some (expectedVariantRows lp title v)"
proof (cases lp)
  case None
  then show ?thesis
    using levelRows_complete [OF assms, of title v]
    by (simp add: projectVariant_def expectedVariantRows_def present_def filterActive_def)
next
  case (Some lid)
  show ?thesis
  proof (cases "filterActive lp")
    case True
    have "\<forall>l \<in> set (filter (atLocation lid) (levelsOf v)). completeLevel l"
      using assms by simp
    from levelRows_complete [OF this, of title v] show ?thesis
      using Some True filterByLocation_complete [OF assms, of lid]
      by (auto simp: projectVariant_def expectedVariantRows_def filterActive_def)
  next
    case False
    then show ?thesis
      using Some levelRows_complete [OF assms, of title v]
      by (auto simp: projectVariant_def expectedVariantRows_def filterActive_def)
  qed
qed

lemma projectVariants_complete:
  assumes "\<forall>v \<in> set vs. \<forall>l \<in> set (levelsOf v). completeLevel l"
  shows "projectVariants lp title vs = Some (concat (map (expectedVariantRows lp title) vs))"
  using assms by (induction vs) (simp_all add: projectVariant_complete)

lemma projectProducts_complete:
  assumes "\<forall>p \<in> set tree. \<forall>v \<in> set (pn_variants p). \<forall>l \<in> set (levelsOf v). completeLevel l"
  shows "projectProducts lp tree = Some (concat (map (expectedProductRows lp) tree))"
  using assms by (induction tree) (simp_all add: projectVariants_complete expectedProductRows_def)

text \<open>
  Claim C6. On a tree whose inventory levels all carry their location and their
  quantities, the loader pushes for every variant exactly the rows of the projection
  rule: with a location filter one row for each level of the variant at that location,
  hence none for a variant without a level there; with no filter one row for each level,
  or one placeholder row for a variant without levels. The exported rows are these rows
  in the order of the products and variants, and a single ``No data found'' row when
  there is none.
\<close>

theorem projection_one_row_per_level:
  assumes "\<forall>p \<in> set tree. \<forall>v \<in> set (pn_variants p). \<forall>l \<in> set (levelsOf v). completeLevel l"
  shows "projectRows lp tree =
           Some (if concat (map (expectedProductRows lp) tree) = [] then [noDataRow]
                 else concat (map (expectedProductRows lp) tree))
       \<and> (\<forall>p \<in> set tree. \<forall>v \<in> set (pn_variants p).
             projectVariant lp (pn_title p) v = Some (expectedVariantRows lp (pn_title p) v)
             \<and> (filterActive lp \<longrightarrow>
                  (\<exists>lid. lp = Some lid
                     \<and> expectedVariantRows lp (pn_title p) v
                         = map (rowOfLevel (pn_title p) v) (filter (atLocation lid) (levelsOf v))))
             \<and> (\<not> filterActive lp \<and> levelsOf v = [] \<longrightarrow>
                  expectedVariantRows lp (pn_title p) v = [placeholderRow (pn_title p) v])
             \<and> (\<not> filterActive lp \<and> levelsOf v \<noteq> [] \<longrightarrow>
                  expectedVariantRows lp (pn_title p) v = map (rowOfLevel (pn_title p) v) (levelsOf v)))"
proof (intro conjI ballI impI)
  show "projectRows lp tree =
           Some (if concat (map (expectedProductRows lp) tree) = [] then [noDataRow]
                 else concat (map (expectedProductRows lp) tree))"
    by (simp add: projectRows_def projectProducts_complete [OF assms])
next
  fix p v
  assume "p \<in> set tree" "v \<in> set (pn_variants p)"
  then have "\<forall>l \<in> set (levelsOf v). completeLevel l" using assms by blast
  then show "projectVariant lp (pn_title p) v = Some (expectedVariantRows lp (pn_title p) v)"
    by (rule projectVariant_complete)
next
  fix p v
  assume "filterActive lp"
  then show "\<exists>lid. lp = Some lid
                     \<and> expectedVariantRows lp (pn_title p) v
                         = map (rowOfLevel (pn_title p) v) (filter (atLocation lid) (levelsOf v))"
    by (cases lp) (simp_all add: expectedVariantRows_def filterActive_def present_def)
next
  fix p v
  assume "\<not> filterActive lp \<and> levelsOf v = []"
  then show "expectedVariantRows lp (pn_title p) v = [placeholderRow (pn_title p) v]"
    by (simp add: expectedVariantRows_def)
next
  fix p v
  assume "\<not> filterActive lp \<and> levelsOf v \<noteq> []"
  then show "expectedVariantRows lp (pn_title p) v = map (rowOfLevel (pn_title p) v) (levelsOf v)"
    by (simp add: expectedVariantRows_def)
qed

theorem projection_one_row_per_level_witness:
  "exportRows (Some ''L1'') exLines =
     Some [\<lparr>row_productTitle = Some ''Shirt'', row_sku = ''A1'', row_option1 = ''Red'',
             row_option2 = [], row_option3 = [], row_inventoryLocation = ''Main'',
             row_quantityAvailable = JNum 5\<rparr>]
   \<and> exportRows None exLines =
     Some [\<lparr>row_productTitle = Some ''Shirt'', row_sku = ''A1'', row_option1 = ''Red'',
             row_option2 = [], row_option3 = [], row_inventoryLocation = ''Main'',
             row_quantityAvailable = JNum 5\<rparr>,
           \<lparr>row_productTitle = Some ''Shirt'', row_sku = ''A1'', row_option1 = ''Red'',
             row_option2 = [], row_option3 = [], row_inventoryLocation = ''Annex'',
             row_quantityAvailable = JNum 0\<rparr>,
           \<lparr>row_productTitle = Some ''Shirt'', row_sku = ''B2'', row_option1 = [],
             row_option2 = [], row_option3 = [], row_inventoryLocation = ''N/A'',
             row_quantityAvailable = JNum 0\<rparr>]"
proof -
  have h: "\<forall>p \<in> set exTree. \<forall>v \<in> set (pn_variants p). \<forall>l \<in> set (levelsOf v). completeLevel l"
    by code_simp
  have a: "concat (map (expectedProductRows (Some ''L1'')) exTree) =
     [\<lparr>row_productTitle = Some ''Shirt'', row_sku = ''A1'', row_option1 = ''Red'',
             row_option2 = [], row_option3 = [], row_inventoryLocation = ''Main'',
             row_quantityAvailable = JNum 5\<rparr>]"
    by code_simp
  have b: "concat (map (expectedProductRows None) exTree) =
     [\<lparr>row_productTitle = Some ''Shirt'', row_sku = ''A1'', row_option1 = ''Red'',
             row_option2 = [], row_option3 = [], row_inventoryLocation = ''Main'',
             row_quantityAvailable = JNum 5\<rparr>,
           \<lparr>row_productTitle = Some ''Shirt'', row_sku = ''A1'', row_option1 = ''Red'',
             row_option2 = [], row_option3 = [], row_inventoryLocation = ''Annex'',
             row_quantityAvailable = JNum 0\<rparr>,
           \<lparr>row_productTitle = Some ''Shirt'', row_sku = ''B2'', row_option1 = [],
             row_option2 = [], row_option3 = [], row_inventoryLocation = ''N/A'',
             row_quantityAvailable = JNum 0\<rparr>]"
    by code_simp
  from projection_one_row_per_level [OF h, of "Some ''L1''", THEN conjunct1]
    projection_one_row_per_level [OF h, of None, THEN conjunct1]
  show ?thesis
    by (simp add: exportRows_def exTree_def [symmetric] a b)
qed

section \<open>Submitting the read job\<close>

lemma exportAction_submissions_bounded:
  "length (filter (\<lambda>c. c = RunQuery) (snd (exportAction loc remote))) \<le> 2"
  by (auto simp: exportAction_def callsBeforeSubmit_def retryCalls_def
        split: remote.splits option.splits)

text \<open>
  Claim C9, as stated, fails: the cancellation of the retry is made only when the lookup
  of the current operation returns an id. Here the first submission reports an operation
  in progress and the lookup returns none; the action resubmits without any
  cancellation.
\<close>

theorem retry_without_cancellation:
  "inProgress (Some \<lparr>rq_userErrors = Some [''A bulk query operation for this app and shop is already in progress''],
                     rq_bulkOperation = None\<rparr>)
   \<and> exportAction ''L1'' (exExportRemote\<lparr>retryOperationResponse := Resolves None\<rparr>) =
       (Returned (ExportCreated ''L1'' ''gid://shopify/BulkOperation/8''),
        [QueryCurrentOperation, RunQuery, QueryCurrentOperationId, RunQuery])"
  by code_simp

text \<open>
  Claim C9, amended. When the first submission is answered with a user error whose
  message contains ``in progress'' and the requests that follow are answered, the action
  looks the current operation up, cancels it once if the lookup returns an id and not at
  all otherwise, and resubmits exactly once; the result of the action is then decided by
  the answer to the resubmission alone, so user errors of the resubmission are returned
  as the failure with no further retry.
\<close>

theorem in_progress_retries_once:
  assumes "currentOperationResponse remote = Resolves currentOp"
    and "runQueryResponse remote = Resolves result" "inProgress result"
    and "retryOperationResponse remote = Resolves retryId"
    and "retryRunQueryResponse remote = Resolves retried"
  shows "snd (exportAction loc remote) = callsBeforeSubmit currentOp @ [RunQuery] @ retryCalls retryId
       \<and> length (filter isCancel (retryCalls retryId)) = (if present retryId then 1 else 0)
       \<and> filter (\<lambda>c. c = RunQuery) (retryCalls retryId) = [RunQuery]
       \<and> (\<forall>i. retryId = Some i \<and> i \<noteq> [] \<longrightarrow>
             retryCalls retryId = [QueryCurrentOperationId, CancelOperation i, RunQuery])
       \<and> (\<not> present retryId \<longrightarrow> retryCalls retryId = [QueryCurrentOperationId, RunQuery])
       \<and> fst (exportAction loc remote) = finishSubmit loc retried
       \<and> (\<forall>m ms. userErrorsOf retried = m # ms \<longrightarrow>
             fst (exportAction loc remote) = Returned (ExportError m))"
  using assms
  by (auto simp: exportAction_def retryCalls_def present_def finishSubmit_def isCancel_def
        split: option.splits)

theorem in_progress_retries_once_witness:
  "exportAction ''L1'' exExportRemote =
     (Returned (ExportCreated ''L1'' ''gid://shopify/BulkOperation/8''),
      [QueryCurrentOperation, RunQuery, QueryCurrentOperationId,
       CancelOperation ''gid://shopify/BulkOperation/7'', RunQuery])"
proof -
  let ?result = "Some \<lparr>rq_userErrors = Some [''A bulk query operation for this app and shop is already in progress''],
                     rq_bulkOperation = None\<rparr>"
  let ?retried = "Some \<lparr>rq_userErrors = Some [], rq_bulkOperation = Some ''gid://shopify/BulkOperation/8''\<rparr>"
  have h: "currentOperationResponse exExportRemote = Resolves None"
    "runQueryResponse exExportRemote = Resolves ?result" "inProgress ?result"
    "retryOperationResponse exExportRemote = Resolves (Some ''gid://shopify/BulkOperation/7'')"
    "retryRunQueryResponse exExportRemote = Resolves ?retried"
    by code_simp+
  have f: "finishSubmit ''L1'' ?retried = Returned (ExportCreated ''L1'' ''gid://shopify/BulkOperation/8'')"
    by (simp add: finishSubmit_def userErrorsOf_def)
  have c: "callsBeforeSubmit None = [QueryCurrentOperation]"
    by (simp add: callsBeforeSubmit_def)
  note t = in_progress_retries_once [OF h, of "''L1''"]
  from t [THEN conjunct1]
    t [THEN conjunct2, THEN conjunct2, THEN conjunct2, THEN conjunct1, rule_format,
       of "''gid://shopify/BulkOperation/7''"]
  have s: "snd (exportAction ''L1'' exExportRemote) =
      [QueryCurrentOperation, RunQuery, QueryCurrentOperationId,
       CancelOperation ''gid://shopify/BulkOperation/7'', RunQuery]"
    by (simp add: c)
  from t [THEN conjunct2, THEN conjunct2, THEN conjunct2, THEN conjunct2, THEN conjunct2,
          THEN conjunct1]
  have r: "fst (exportAction ''L1'' exExportRemote) =
      Returned (ExportCreated ''L1'' ''gid://shopify/BulkOperation/8'')"
    by (simp add: f)
  show ?thesis using s r by (cases "exportAction ''L1'' exExportRemote") simp
qed

end
